theory Spec2Isabelle
  imports Complex_Main
begin

section \<open>CO2Logger: the data preparation and colour encoding of CO2LoggerReading.py\<close>

text \<open>
  The script reads a delimited sensor log into a table, converts the packed coordinates
  to decimal degrees, projects them into one UTM zone, prepares the time columns, draws
  two plots and writes a KML document whose markers are coloured by the CO2 reading.

  Conventions of the model.
  \<^item> A Python or numpy float is a \<open>pyfloat\<close>: a finite value, an infinity or NaN.
    Finite values are real numbers, overflow is not modelled and zero has no sign. The
    rounding of an operation's result to a double is left out, except in the zone
    selection, whose claim is about the ends of the longitude range: there it is the
    parameter \<open>rnd\<close>. The machine's rounding is monotone and leaves every double unchanged;
    the identity is exact arithmetic.
  \<^item> A Python exception is a value \<open>Inl e\<close> of a sum type; \<open>e\<close> holds the exception
    class and its message.
  \<^item> The table starts as the rows the CSV reader delivers; reading the file itself
    (and the two \<open>sys.exit\<close> branches around it) is outside the model.
  \<^item> The libraries the script calls (the colour map, the CRS lookup and projection, the
    text-to-number coercion) are parameters of the functions that use them.
\<close>

subsection \<open>Floats and exceptions\<close>

datatype pyfloat = Fin real | PInf | NInf | NaN

datatype py_error =
    ValueError string
  | OverflowError string
  | TypeError string
  | IndexError string
  | CRSError string

fun is_nan :: "pyfloat \<Rightarrow> bool" where
  "is_nan NaN = True"
| "is_nan _ = False"

text \<open>\<open>int(x)\<close> on a float: truncation towards zero; NaN and the infinities raise.\<close>

fun py_int :: "pyfloat \<Rightarrow> py_error + int" where
  "py_int (Fin x) = Inr (if 0 \<le> x then \<lfloor>x\<rfloor> else \<lceil>x\<rceil>)"
| "py_int NaN = Inl (ValueError ''cannot convert float NaN to integer'')"
| "py_int PInf = Inl (OverflowError ''cannot convert float infinity to integer'')"
| "py_int NInf = Inl (OverflowError ''cannot convert float infinity to integer'')"

text \<open>
  \<open>x // d\<close> and \<open>x % d\<close> for a finite divisor \<open>d > 0\<close> (the script only divides by 100):
  the floor of the quotient and the residue with the sign of the divisor. For an infinite
  or NaN dividend both are NaN.
\<close>

fun py_floordiv :: "pyfloat \<Rightarrow> real \<Rightarrow> pyfloat" where
  "py_floordiv (Fin x) d = Fin (of_int \<lfloor>x / d\<rfloor>)"
| "py_floordiv _ d = NaN"

fun py_mod :: "pyfloat \<Rightarrow> real \<Rightarrow> pyfloat" where
  "py_mod (Fin x) d = Fin (x - d * of_int \<lfloor>x / d\<rfloor>)"
| "py_mod _ d = NaN"

fun py_neg :: "pyfloat \<Rightarrow> pyfloat" where
  "py_neg (Fin x) = Fin (- x)"
| "py_neg PInf = NInf"
| "py_neg NInf = PInf"
| "py_neg NaN = NaN"

fun py_add :: "pyfloat \<Rightarrow> pyfloat \<Rightarrow> pyfloat" where
  "py_add (Fin x) (Fin y) = Fin (x + y)"
| "py_add NaN _ = NaN"
| "py_add _ NaN = NaN"
| "py_add PInf NInf = NaN"
| "py_add NInf PInf = NaN"
| "py_add PInf _ = PInf"
| "py_add _ PInf = PInf"
| "py_add NInf _ = NInf"
| "py_add _ NInf = NInf"

definition py_sub :: "pyfloat \<Rightarrow> pyfloat \<Rightarrow> pyfloat" where
  "py_sub a b = py_add a (py_neg b)"

text \<open>
  True division. A zero divisor occurs only in \<open>get_kml_color\<close>, whose operands are
  numpy scalars (results of the column reductions): numpy warns and returns an infinity
  or NaN where a plain Python float would raise.
\<close>

fun py_div :: "pyfloat \<Rightarrow> pyfloat \<Rightarrow> pyfloat" where
  "py_div (Fin x) (Fin y) =
     (if y \<noteq> 0 then Fin (x / y) else if x = 0 then NaN else if 0 < x then PInf else NInf)"
| "py_div NaN _ = NaN"
| "py_div _ NaN = NaN"
| "py_div (Fin x) _ = Fin 0"
| "py_div PInf (Fin y) = (if 0 \<le> y then PInf else NInf)"
| "py_div NInf (Fin y) = (if 0 \<le> y then NInf else PInf)"
| "py_div _ _ = NaN"

text \<open>Comparison of floats: every comparison with NaN is false.\<close>

fun py_less :: "pyfloat \<Rightarrow> pyfloat \<Rightarrow> bool" where
  "py_less (Fin x) (Fin y) = (x < y)"
| "py_less NaN _ = False"
| "py_less _ NaN = False"
| "py_less NInf NInf = False"
| "py_less NInf _ = True"
| "py_less PInf _ = False"
| "py_less (Fin x) PInf = True"
| "py_less (Fin x) NInf = False"

fun py_eq :: "pyfloat \<Rightarrow> pyfloat \<Rightarrow> bool" where
  "py_eq NaN _ = False"
| "py_eq _ NaN = False"
| "py_eq a b = (a = b)"

subsection \<open>Column reductions of the table library\<close>

text \<open>\<open>Series.mean()\<close>, \<open>Series.min()\<close> and \<open>Series.max()\<close> skip NaN entries and
  return NaN when nothing is left.\<close>

definition series_mean :: "pyfloat list \<Rightarrow> pyfloat" where
  "series_mean xs =
     (let ys = filter (\<lambda>x. \<not> is_nan x) xs
      in if ys = [] then NaN
         else py_div (foldl py_add (Fin 0) ys) (Fin (real (length ys))))"

definition series_min :: "pyfloat list \<Rightarrow> pyfloat" where
  "series_min xs =
     (case filter (\<lambda>x. \<not> is_nan x) xs of
        [] \<Rightarrow> NaN
      | y # ys \<Rightarrow> foldl (\<lambda>m x. if py_less x m then x else m) y ys)"

definition series_max :: "pyfloat list \<Rightarrow> pyfloat" where
  "series_max xs =
     (case filter (\<lambda>x. \<not> is_nan x) xs of
        [] \<Rightarrow> NaN
      | y # ys \<Rightarrow> foldl (\<lambda>m x. if py_less m x then x else m) y ys)"

subsection \<open>Coordinate conversion and zone selection\<close>

text \<open>
  \<^verbatim>\<open>
  def convert_ddmmss_to_dd(coord):
      degrees = int(coord // 100)
      decimal_minutes = coord % 100
      return degrees + decimal_minutes / 60
  \<close>
\<close>

definition convert_ddmmss_to_dd :: "pyfloat \<Rightarrow> py_error + pyfloat" where
  "convert_ddmmss_to_dd coord =
     (case py_int (py_floordiv coord 100) of
        Inl e \<Rightarrow> Inl e
      | Inr degrees \<Rightarrow>
          (let decimal_minutes = py_mod coord 100
           in Inr (py_add (Fin (of_int degrees)) (py_div decimal_minutes (Fin 60)))))"

text \<open>
  Line 74 of the script: \<^verbatim>\<open>utm_zone = int((mean_lon + 180) / 6) + 1\<close>. The sum and the
  quotient are float operations: each result is rounded to a double by \<open>rnd\<close>.
\<close>

fun py_round :: "(real \<Rightarrow> real) \<Rightarrow> pyfloat \<Rightarrow> pyfloat" where
  "py_round rnd (Fin x) = Fin (rnd x)"
| "py_round rnd x = x"

definition utm_zone :: "(real \<Rightarrow> real) \<Rightarrow> pyfloat \<Rightarrow> py_error + int" where
  "utm_zone rnd mean_lon =
     (case py_int (py_round rnd (py_div (py_round rnd (py_add mean_lon (Fin 180))) (Fin 6))) of
        Inl e \<Rightarrow> Inl e
      | Inr z \<Rightarrow> Inr (z + 1))"

subsection \<open>Decimal strings\<close>

text \<open>\<open>str(n)\<close> for an integer, \<open>s.zfill(width)\<close>, a slice \<open>s[i:j]\<close> and \<open>int(s)\<close>
  for a string of decimal digits.\<close>

definition digit_char :: "nat \<Rightarrow> char" where
  "digit_char n = ''0123456789'' ! n"

function str_nat :: "nat \<Rightarrow> string" where
  "str_nat n = (if n < 10 then [digit_char n] else str_nat (n div 10) @ [digit_char (n mod 10)])"
  by pat_completeness auto
termination
  by (relation "measure (\<lambda>n. n)") auto

declare str_nat.simps [simp del]

definition str_int :: "int \<Rightarrow> string" where
  "str_int i = (if i < 0 then CHR ''-'' # str_nat (nat (- i)) else str_nat (nat i))"

definition zfill :: "nat \<Rightarrow> string \<Rightarrow> string" where
  "zfill width s =
     (if width \<le> length s then s
      else (case s of
              [] \<Rightarrow> replicate width CHR ''0''
            | c # rest \<Rightarrow>
                if c = CHR ''-'' \<or> c = CHR ''+''
                then c # replicate (width - length s) CHR ''0'' @ rest
                else replicate (width - length s) CHR ''0'' @ s))"

definition slice :: "nat \<Rightarrow> nat \<Rightarrow> string \<Rightarrow> string" where
  "slice i j s = take (j - i) (drop i s)"

definition is_digit :: "char \<Rightarrow> bool" where
  "is_digit c = (c \<in> set ''0123456789'')"

definition digit_val :: "char \<Rightarrow> nat" where
  "digit_val c = of_char c - 48"

definition nat_of_digits :: "string \<Rightarrow> nat" where
  "nat_of_digits s = foldl (\<lambda>a c. 10 * a + digit_val c) 0 s"

definition py_repr :: "string \<Rightarrow> string" where
  "py_repr s = CHR 0x27 # s @ [CHR 0x27]"

subsection \<open>Time of day\<close>

text \<open>
  \<^verbatim>\<open>
  def format_time_string(time_value):
      time_str = str(int(time_value)).zfill(6)
      return f"{time_str[0:2]}:{time_str[2:4]}:{time_str[4:6]}"
  \<close>
\<close>

definition format_time_string :: "pyfloat \<Rightarrow> py_error + string" where
  "format_time_string time_value =
     (case py_int time_value of
        Inl e \<Rightarrow> Inl e
      | Inr i \<Rightarrow>
          (let time_str = zfill 6 (str_int i)
           in Inr (slice 0 2 time_str @ '':'' @ slice 2 4 time_str @ '':'' @ slice 4 6 time_str)))"

text \<open>
  \<open>datetime.strptime(s, '%H%M%S')\<close>. The library matches the regular expression
  \<^verbatim>\<open>(2[0-3]|[0-1]\d|\d)([0-5]\d|\d)(6[0-1]|[0-5]\d|\d)\<close> at the start of \<open>s\<close>, rejects
  text left over after the match, and builds a datetime on 1 January 1900, which rejects a
  second above 59. The script only passes strings \<open>str(int(t)).zfill(6)\<close>: at least
  six characters, all digits but for a leading minus sign. On those each group takes its
  first alternative that matches, so the three functions below give the number of
  characters each group consumes (0: no match). The date is the same for every value and
  is left out of the record.
\<close>

record datetime =
  hour :: nat
  minute :: nat
  second :: nat

fun match_H :: "string \<Rightarrow> nat" where
  "match_H (a # b # s) =
     (if a = CHR ''2'' \<and> b \<in> set ''0123'' then 2
      else if a \<in> set ''01'' \<and> is_digit b then 2
      else if is_digit a then 1 else 0)"
| "match_H [a] = (if is_digit a then 1 else 0)"
| "match_H [] = 0"

fun match_M :: "string \<Rightarrow> nat" where
  "match_M (a # b # s) =
     (if a \<in> set ''012345'' \<and> is_digit b then 2
      else if is_digit a then 1 else 0)"
| "match_M [a] = (if is_digit a then 1 else 0)"
| "match_M [] = 0"

fun match_S :: "string \<Rightarrow> nat" where
  "match_S (a # b # s) =
     (if a = CHR ''6'' \<and> b \<in> set ''01'' then 2
      else if a \<in> set ''012345'' \<and> is_digit b then 2
      else if is_digit a then 1 else 0)"
| "match_S [a] = (if is_digit a then 1 else 0)"
| "match_S [] = 0"

definition strptime_HMS :: "string \<Rightarrow> py_error + datetime" where
  "strptime_HMS s =
     (let h = match_H s; s1 = drop h s;
          m = match_M s1; s2 = drop m s1;
          k = match_S s2; rest = drop k s2
      in if h = 0 \<or> m = 0 \<or> k = 0
         then Inl (ValueError (''time data '' @ py_repr s @ '' does not match format ''
                                @ py_repr ''%H%M%S''))
         else if rest \<noteq> []
         then Inl (ValueError (''unconverted data remains: '' @ rest))
         else if 59 < nat_of_digits (take k s2)
         then Inl (ValueError ''second must be in 0..59'')
         else Inr \<lparr>hour = nat_of_digits (take h s),
                   minute = nat_of_digits (take m s1),
                   second = nat_of_digits (take k s2)\<rparr>)"

definition seconds_of_day :: "datetime \<Rightarrow> int" where
  "seconds_of_day d = int (hour d) * 3600 + int (minute d) * 60 + int (second d)"

text \<open>\<open>(a - b).total_seconds()\<close> for two datetimes of the same day.\<close>

definition total_seconds_between :: "datetime \<Rightarrow> datetime \<Rightarrow> pyfloat" where
  "total_seconds_between a b = Fin (of_int (seconds_of_day a - seconds_of_day b))"

subsection \<open>The table\<close>

text \<open>
  A cell of a measurement column is a number, or the text of an entry the reader could
  not take as a number. The time and coordinate columns are numeric (NaN: a missing
  entry). \<open>raw_row\<close> is a row as read, \<open>row\<close> a row with the derived columns.
\<close>

datatype cell = Num pyfloat | Text string

record raw_row =
  Time :: pyfloat
  Latitude :: pyfloat
  Longitude :: pyfloat
  CO2 :: cell
  Temperature :: cell
  Humidity :: cell

record row = raw_row +
  Latitude_DD :: pyfloat
  Longitude_DD :: pyfloat
  Easting_m :: pyfloat
  Northing_m :: pyfloat
  UTM_Zone :: int
  Time_HHMMSS :: string
  Relative_Seconds :: pyfloat

text \<open>
  \<^verbatim>\<open>
  def calculate_relative_seconds(row, start_time):
      current_time_str = str(int(row['Time'])).zfill(6)
      current_time = datetime.strptime(current_time_str, '%H%M%S')
      difference = current_time - start_time
      return difference.total_seconds()
  \<close>
\<close>

definition calculate_relative_seconds ::
  "'a raw_row_scheme \<Rightarrow> datetime \<Rightarrow> py_error + pyfloat" where
  "calculate_relative_seconds r start_time =
     (case py_int (Time r) of
        Inl e \<Rightarrow> Inl e
      | Inr i \<Rightarrow>
          (let current_time_str = zfill 6 (str_int i)
           in case strptime_HMS current_time_str of
                Inl e \<Rightarrow> Inl e
              | Inr current_time \<Rightarrow> Inr (total_seconds_between current_time start_time)))"

subsection \<open>Loading and preparing the data\<close>

text \<open>\<open>Series.apply(f)\<close> and \<open>DataFrame.apply(f, axis=1)\<close> call \<open>f\<close> on the entries in
  row order; the first exception ends the call and no column is produced.\<close>

fun map_result :: "('a \<Rightarrow> py_error + 'b) \<Rightarrow> 'a list \<Rightarrow> py_error + 'b list" where
  "map_result f [] = Inr []"
| "map_result f (x # xs) =
     (case f x of
        Inl e \<Rightarrow> Inl e
      | Inr y \<Rightarrow> (case map_result f xs of Inl e \<Rightarrow> Inl e | Inr ys \<Rightarrow> Inr (y # ys)))"

text \<open>
  The projection library is a parameter: \<open>utm_transformer code\<close> is the transformer from
  geographic coordinates (EPSG:4326) to the CRS with the EPSG code \<open>code\<close>, taking
  longitude and latitude to easting and northing, or \<open>None\<close> when the library rejects the
  code (\<open>CRSError\<close> then holds the rejected code, not the library's message).
\<close>

type_synonym transformer = "pyfloat \<Rightarrow> pyfloat \<Rightarrow> pyfloat \<times> pyfloat"

fun assemble ::
  "raw_row list \<Rightarrow> pyfloat list \<Rightarrow> pyfloat list \<Rightarrow> (pyfloat \<times> pyfloat) list \<Rightarrow> int \<Rightarrow>
   string list \<Rightarrow> pyfloat list \<Rightarrow> row list" where
  "assemble (r # rs) (la # las) (lo # los) (en # ens) z (t # ts) (s # ss) =
     \<lparr>Time = Time r, Latitude = Latitude r, Longitude = Longitude r, CO2 = CO2 r,
      Temperature = Temperature r, Humidity = Humidity r,
      Latitude_DD = la, Longitude_DD = lo, Easting_m = fst en, Northing_m = snd en,
      UTM_Zone = z, Time_HHMMSS = t, Relative_Seconds = s\<rparr>
     # assemble rs las los ens z ts ss"
| "assemble _ _ _ _ _ _ _ = []"

text \<open>
  \<open>load_and_prepare_data\<close> from the table on: the two coordinate columns (lines 68-69),
  the zone of the mean longitude and the projection (72-82), the time strings (85), the
  reference time of the first row (87-88) and the relative seconds (90).
\<close>

definition load_and_prepare_data ::
  "(real \<Rightarrow> real) \<Rightarrow> (string \<Rightarrow> transformer option) \<Rightarrow> raw_row list \<Rightarrow>
   py_error + row list" where
  "load_and_prepare_data rnd utm_transformer df =
     (case map_result convert_ddmmss_to_dd (map Latitude df) of
        Inl e \<Rightarrow> Inl e
      | Inr lat_dd \<Rightarrow>
     (case map_result convert_ddmmss_to_dd (map Longitude df) of
        Inl e \<Rightarrow> Inl e
      | Inr lon_dd \<Rightarrow>
     (case utm_zone rnd (series_mean lon_dd) of
        Inl e \<Rightarrow> Inl e
      | Inr zone \<Rightarrow>
     (case utm_transformer (''326'' @ str_int zone) of
        None \<Rightarrow> Inl (CRSError (''326'' @ str_int zone))
      | Some transform \<Rightarrow>
     (let en = map (\<lambda>(lo, la). transform lo la) (zip lon_dd lat_dd)
      in case map_result format_time_string (map Time df) of
        Inl e \<Rightarrow> Inl e
      | Inr hhmmss \<Rightarrow>
     (case df of
        [] \<Rightarrow> Inl (IndexError ''single positional indexer is out-of-bounds'')
      | r0 # _ \<Rightarrow>
     (case py_int (Time r0) of
        Inl e \<Rightarrow> Inl e
      | Inr i0 \<Rightarrow>
     (case strptime_HMS (zfill 6 (str_int i0)) of
        Inl e \<Rightarrow> Inl e
      | Inr start_time \<Rightarrow>
     (case map_result (\<lambda>r. calculate_relative_seconds r start_time) df of
        Inl e \<Rightarrow> Inl e
      | Inr rel \<Rightarrow> Inr (assemble df lat_dd lon_dd en zone hhmmss rel))))))))))"

subsection \<open>Colours\<close>

text \<open>
  A colour map takes a float to four floats (red, green, blue, alpha) in \<open>[0, 1]\<close>; it is a
  parameter of both consumers. \<open>to_bytes\<close> is line 219:
  \<^verbatim>\<open>r, g, b, a = [int(c * 255) for c in rgba]\<close>.
\<close>

type_synonym rgba = "real \<times> real \<times> real \<times> real"
type_synonym colormap = "pyfloat \<Rightarrow> rgba"
type_synonym kml_color = "int \<times> int \<times> int \<times> int"

definition trunc :: "real \<Rightarrow> int" where
  "trunc x = (if 0 \<le> x then \<lfloor>x\<rfloor> else \<lceil>x\<rceil>)"

definition to_bytes :: "rgba \<Rightarrow> kml_color" where
  "to_bytes c = (case c of (r, g, b, a) \<Rightarrow>
     (trunc (r * 255), trunc (g * 255), trunc (b * 255), trunc (a * 255)))"

text \<open>
  \<^verbatim>\<open>
  def get_kml_color(co2_value):
      normalized_value = (co2_value - min_co2) / (max_co2 - min_co2)
      rgba = cmap(normalized_value)
      r, g, b, a = [int(c * 255) for c in rgba]
      return simplekml.Color.rgb(r, g, b, a)
  \<close>
  The variables \<open>cmap\<close>, \<open>min_co2\<close> and \<open>max_co2\<close> of the enclosing function are
  arguments here. The result stands for the colour object built from the four integers.
\<close>

definition get_kml_color :: "colormap \<Rightarrow> pyfloat \<Rightarrow> pyfloat \<Rightarrow> pyfloat \<Rightarrow> kml_color" where
  "get_kml_color cmap min_co2 max_co2 co2_value =
     (let normalized_value = py_div (py_sub co2_value min_co2) (py_sub max_co2 min_co2);
          rgba = cmap normalized_value
      in to_bytes rgba)"

text \<open>
  \<open>plt.Normalize(vmin, vmax)\<close> applied to a value, as the scatter plot does it: an invalid
  (NaN) value stays invalid, equal bounds send every value to 0, otherwise the value is
  scaled linearly, without clipping. (The library rejects \<open>vmin > vmax\<close>; the minimum and
  maximum of one column never are.)
\<close>

definition Normalize :: "pyfloat \<Rightarrow> pyfloat \<Rightarrow> pyfloat \<Rightarrow> pyfloat" where
  "Normalize vmin vmax v =
     (if is_nan v then NaN
      else if py_eq vmin vmax then Fin 0
      else py_div (py_sub v vmin) (py_sub vmax vmin))"

text \<open>
  \<open>plt.colorbar(scatter)\<close> (line 170) replaces the bounds of the scatter plot's norm, in
  place and before anything is drawn, by \<open>nonsingular(vmin, vmax, expander=0.1)\<close> of the
  plotting library: bounds that are not finite, or both tiny, become \<open>(-0.1, 0.1)\<close>; an
  interval no wider than \<open>1e-15\<close> of its larger magnitude is widened by a tenth of each
  bound's magnitude; any other interval stays. The threshold for tiny is the library's
  \<open>(1e6 / 1e-15) * finfo(float).tiny\<close>, the smallest normal double times \<open>1e21\<close>.
\<close>

definition nonsingular_threshold :: real where
  "nonsingular_threshold = 10 ^ 21 / 2 ^ 1022"

definition nonsingular :: "pyfloat \<Rightarrow> pyfloat \<Rightarrow> real \<Rightarrow> pyfloat \<times> pyfloat" where
  "nonsingular vmin vmax expander =
     (case (vmin, vmax) of
        (Fin a, Fin b) \<Rightarrow>
          (let lo = (if b < a then b else a);
               hi = (if b < a then a else b);
               maxabsvalue = max \<bar>lo\<bar> \<bar>hi\<bar>
           in if maxabsvalue < nonsingular_threshold
              then (Fin (- expander), Fin expander)
              else if hi - lo \<le> maxabsvalue * (1 / 10 ^ 15)
              then (if hi = 0 \<and> lo = 0
                    then (Fin (- expander), Fin expander)
                    else (Fin (lo - expander * \<bar>lo\<bar>), Fin (hi + expander * \<bar>hi\<bar>)))
              else (Fin lo, Fin hi))
      | _ \<Rightarrow> (Fin (- expander), Fin expander))"

subsection \<open>The chart\<close>

text \<open>
  \<open>pd.to_numeric(column, errors='coerce')\<close> on one cell: a number stays; text becomes the
  number it spells, or NaN when it spells none. Reading text as a number is the
  library's, hence the parameter \<open>parse\<close>.
\<close>

definition to_numeric :: "(string \<Rightarrow> pyfloat option) \<Rightarrow> cell \<Rightarrow> pyfloat" where
  "to_numeric parse c =
     (case c of
        Num x \<Rightarrow> x
      | Text s \<Rightarrow> (case parse s of Some x \<Rightarrow> x | None \<Rightarrow> NaN))"

text \<open>Whether a cell holds text, and the float in a numeric cell (\<open>cell_float\<close> is only
  applied to columns without text).\<close>

fun is_text :: "cell \<Rightarrow> bool" where
  "is_text (Text s) = True"
| "is_text (Num x) = False"

fun cell_float :: "cell \<Rightarrow> pyfloat" where
  "cell_float (Num x) = x"
| "cell_float (Text s) = NaN"

text \<open>The slice \<open>xs[::step]\<close> for \<open>step \<ge> 1\<close>, and the positions it takes.\<close>

definition every_nth_index :: "nat \<Rightarrow> nat \<Rightarrow> nat list" where
  "every_nth_index step n = filter (\<lambda>i. i mod step = 0) [0..<n]"

definition every_nth :: "nat \<Rightarrow> 'a list \<Rightarrow> 'a list" where
  "every_nth step xs = map (\<lambda>i. xs ! i) (every_nth_index step (length xs))"

text \<open>
  What \<open>draw_plots\<close> hands to the plotting library, as far as it depends on the table: the
  tick positions and labels of the time axis, the points and colours of the trajectory
  scatter plot, the zone in its title, and the start and end markers. The axes, legends
  and styles are constants of the script.
\<close>

record chart =
  xticks :: "nat list"
  xticklabels :: "string list"
  scatter_xy :: "(pyfloat \<times> pyfloat) list"
  scatter_colors :: "rgba list"
  title_zone :: int
  start_marker :: "pyfloat \<times> pyfloat"
  end_marker :: "pyfloat \<times> pyfloat"

text \<open>
  \<open>draw_plots(df)\<close> assigns to three columns of the table it is given (lines 103-105), so
  the model returns the table after the call together with the chart or the exception.
  The colour of a scatter point is the colour map at the normalised CO2 value. The norm
  is made with the bounds \<open>min_co2\<close> and \<open>max_co2\<close> of lines 155-156, and the colour bar of
  line 170 has replaced them by \<open>vmin\<close> and \<open>vmax\<close> when the figure is drawn (line 188). On
  an empty table \<open>iloc[0]\<close> (line 173) raises.
\<close>

definition draw_plots ::
  "(string \<Rightarrow> pyfloat option) \<Rightarrow> colormap \<Rightarrow> row list \<Rightarrow> row list \<times> (py_error + chart)" where
  "draw_plots parse cmap df =
     (let df1 = map (\<lambda>r. r\<lparr>Temperature := Num (to_numeric parse (Temperature r))\<rparr>) df;
          df2 = map (\<lambda>r. r\<lparr>Humidity := Num (to_numeric parse (Humidity r))\<rparr>) df1;
          df3 = map (\<lambda>r. r\<lparr>CO2 := Num (to_numeric parse (CO2 r))\<rparr>) df2;
          n_points = length df3;
          step = max 1 (n_points div 15);
          co2 = map (\<lambda>r. cell_float (CO2 r)) df3;
          min_co2 = series_min co2;
          max_co2 = series_max co2;
          vmin = fst (nonsingular min_co2 max_co2 (1 / 10));
          vmax = snd (nonsingular min_co2 max_co2 (1 / 10))
      in (df3,
          case df3 of
            [] \<Rightarrow> Inl (IndexError ''single positional indexer is out-of-bounds'')
          | r0 # _ \<Rightarrow>
              Inr \<lparr>xticks = every_nth_index step n_points,
                   xticklabels = every_nth step (map Time_HHMMSS df3),
                   scatter_xy = map (\<lambda>r. (Easting_m r, Northing_m r)) df3,
                   scatter_colors = map (\<lambda>v. cmap (Normalize vmin vmax v)) co2,
                   title_zone = UTM_Zone r0,
                   start_marker = (Easting_m r0, Northing_m r0),
                   end_marker = (Easting_m (last df3), Northing_m (last df3))\<rparr>))"

subsection \<open>The KML document\<close>

text \<open>
  The document: the coordinates of the trajectory line, and for each row a point with its
  coordinates and icon colour. The name and description texts of a point (formatted
  floats) and the constant styles are left out. The function assigns to no column of the
  table; the model returns the table it was given beside the document.

  The colour map lookup of lines 205-210 is taken to succeed (both branches make the
  same call). \<open>min_co2\<close> and \<open>max_co2\<close> are computed from the CO2 column of the argument
  (lines 200-201). When that column holds text, the subtraction in \<open>get_kml_color\<close> raises for
  the first row.
\<close>

record kml_point =
  point_coords :: "pyfloat \<times> pyfloat \<times> int"
  icon_color :: kml_color

record kml =
  linestring_coords :: "(pyfloat \<times> pyfloat \<times> int) list"
  points :: "kml_point list"

definition generate_kml_trajectory ::
  "colormap \<Rightarrow> row list \<Rightarrow> row list \<times> (py_error + kml)" where
  "generate_kml_trajectory cmap df =
     (if list_ex (\<lambda>r. is_text (CO2 r)) df
      then (df, Inl (TypeError (''unsupported operand type(s) for -: '' @ py_repr ''str''
                                 @ '' and '' @ py_repr ''str'')))
      else
        (let co2 = map (\<lambda>r. cell_float (CO2 r)) df;
             min_co2 = series_min co2;
             max_co2 = series_max co2;
             trajectory_coords = map (\<lambda>r. (Longitude_DD r, Latitude_DD r, 0)) df
         in (df,
             Inr \<lparr>linestring_coords = trajectory_coords,
                  points = map (\<lambda>r. \<lparr>point_coords = (Longitude_DD r, Latitude_DD r, 0),
                                      icon_color = get_kml_color cmap min_co2 max_co2
                                                     (cell_float (CO2 r))\<rparr>) df\<rparr>)))"

subsection \<open>The main program\<close>

text \<open>Lines 274-283: load, draw the plots, then write the document from the same table.\<close>

definition main ::
  "(real \<Rightarrow> real) \<Rightarrow> (string \<Rightarrow> transformer option) \<Rightarrow> (string \<Rightarrow> pyfloat option) \<Rightarrow>
   colormap \<Rightarrow> raw_row list \<Rightarrow> py_error + chart \<times> kml" where
  "main rnd utm_transformer parse cmap file_rows =
     (case load_and_prepare_data rnd utm_transformer file_rows of
        Inl e \<Rightarrow> Inl e
      | Inr data_df \<Rightarrow>
          (case draw_plots parse cmap data_df of
             (df1, Inl e) \<Rightarrow> Inl e
           | (df1, Inr ch) \<Rightarrow>
               (case generate_kml_trajectory cmap df1 of
                  (df2, Inl e) \<Rightarrow> Inl e
                | (df2, Inr k) \<Rightarrow> Inr (ch, k))))"

subsection \<open>The colour ramp\<close>

text \<open>
  Modelled from the spec: the colour table \<open>RdYlGn_r\<close> belongs to the plotting library and
  is not under src/. The spec (4.4) gives a fixed ramp with three anchor colours, green at
  \<open>t = 0\<close>, yellow at \<open>t = 0.5\<close> and red at \<open>t = 1\<close>, interpolated continuously, fully opaque,
  with \<open>t\<close> clamped to \<open>[0, 1]\<close>. The anchors are the first, middle and last colour of the
  library's table. For NaN the library returns its colour for invalid data, transparent
  black.
\<close>

definition green_anchor :: rgba where
  "green_anchor = (0, 104 / 255, 55 / 255, 1)"

definition yellow_anchor :: rgba where
  "yellow_anchor = (1, 1, 191 / 255, 1)"

definition red_anchor :: rgba where
  "red_anchor = (165 / 255, 0, 38 / 255, 1)"

definition bad_color :: rgba where
  "bad_color = (0, 0, 0, 0)"

definition lerp :: "real \<Rightarrow> rgba \<Rightarrow> rgba \<Rightarrow> rgba" where
  "lerp u c d =
     (case c of (r1, g1, b1, a1) \<Rightarrow> case d of (r2, g2, b2, a2) \<Rightarrow>
        (r1 + u * (r2 - r1), g1 + u * (g2 - g1), b1 + u * (b2 - b1), a1 + u * (a2 - a1)))"

fun RdYlGn_r :: colormap where
  "RdYlGn_r NaN = bad_color"
| "RdYlGn_r NInf = green_anchor"
| "RdYlGn_r PInf = red_anchor"
| "RdYlGn_r (Fin t) =
     (if t \<le> 0 then green_anchor
      else if 1 \<le> t then red_anchor
      else if t \<le> 1 / 2 then lerp (2 * t) green_anchor yellow_anchor
      else lerp (2 * t - 1) yellow_anchor red_anchor)"

subsection \<open>Terms of the specification\<close>

text \<open>
  A packed time \<open>HHMMSS\<close> is valid when it is not negative and its three parts are an hour
  below 24, a minute below 60 and a second below 60; \<open>seconds_since_midnight\<close> is the time
  of day in seconds that the specification subtracts.
\<close>

definition HH_of :: "int \<Rightarrow> int" where
  "HH_of t = t div 10000"

definition MM_of :: "int \<Rightarrow> int" where
  "MM_of t = t div 100 mod 100"

definition SS_of :: "int \<Rightarrow> int" where
  "SS_of t = t mod 100"

definition valid_hhmmss :: "int \<Rightarrow> bool" where
  "valid_hhmmss t = (0 \<le> t \<and> HH_of t \<le> 23 \<and> MM_of t \<le> 59 \<and> SS_of t \<le> 59)"

definition seconds_since_midnight :: "int \<Rightarrow> int" where
  "seconds_since_midnight t = HH_of t * 3600 + MM_of t * 60 + SS_of t"

text \<open>The three rows of the end-to-end example of the specification (section 8), as the
  reader delivers them.\<close>

definition spec_example_rows :: "raw_row list" where
  "spec_example_rows =
     [\<lparr>Time = Fin 100000, Latitude = Fin 4530, Longitude = Fin 1200,
       CO2 = Num (Fin 400), Temperature = Num (Fin 20), Humidity = Num (Fin 50)\<rparr>,
      \<lparr>Time = Fin 100100, Latitude = Fin (45301 / 10), Longitude = Fin (12001 / 10),
       CO2 = Num (Fin 800), Temperature = Num (Fin 21), Humidity = Num (Fin 51)\<rparr>,
      \<lparr>Time = Fin 100200, Latitude = Fin (45302 / 10), Longitude = Fin (12002 / 10),
       CO2 = Num (Fin 1200), Temperature = Num (Fin 22), Humidity = Num (Fin 52)\<rparr>]"

text \<open>The table after lines 103-105 of \<open>draw_plots\<close>: the three measurement columns
  replaced by their numeric coercion (see \<open>fst_draw_plots\<close> below).\<close>

definition coerce_table :: "(string \<Rightarrow> pyfloat option) \<Rightarrow> row list \<Rightarrow> row list" where
  "coerce_table parse df = map (\<lambda>r. r\<lparr>Temperature := Num (to_numeric parse (Temperature r)),
       Humidity := Num (to_numeric parse (Humidity r)), CO2 := Num (to_numeric parse (CO2 r))\<rparr>) df"

text \<open>Tables for concrete instances: a prepared table whose CO2 readings are all 100, a
  prepared table whose CO2 entry is text, the first row of the example, that row with
  its latitude missing, and that row with its time missing.\<close>

definition constant_co2_table :: "row list" where
  "constant_co2_table =
     [\<lparr>Time = Fin 100000, Latitude = Fin 4530, Longitude = Fin 1200,
       CO2 = Num (Fin 100), Temperature = Num (Fin 20), Humidity = Num (Fin 50),
       Latitude_DD = Fin (91 / 2), Longitude_DD = Fin 12,
       Easting_m = Fin 500000, Northing_m = Fin 5000000,
       UTM_Zone = 33, Time_HHMMSS = ''10:00:00'', Relative_Seconds = Fin 0\<rparr>,
      \<lparr>Time = Fin 100100, Latitude = Fin 4530, Longitude = Fin 1200,
       CO2 = Num (Fin 100), Temperature = Num (Fin 21), Humidity = Num (Fin 51),
       Latitude_DD = Fin (91 / 2), Longitude_DD = Fin 12,
       Easting_m = Fin 500000, Northing_m = Fin 5000000,
       UTM_Zone = 33, Time_HHMMSS = ''10:01:00'', Relative_Seconds = Fin 60\<rparr>,
      \<lparr>Time = Fin 100200, Latitude = Fin 4530, Longitude = Fin 1200,
       CO2 = Num (Fin 100), Temperature = Num (Fin 22), Humidity = Num (Fin 52),
       Latitude_DD = Fin (91 / 2), Longitude_DD = Fin 12,
       Easting_m = Fin 500000, Northing_m = Fin 5000000,
       UTM_Zone = 33, Time_HHMMSS = ''10:02:00'', Relative_Seconds = Fin 120\<rparr>]"

text \<open>The log of the example with every CO2 reading replaced by 100.\<close>

definition constant_co2_log :: "raw_row list" where
  "constant_co2_log = map (\<lambda>r. r\<lparr>CO2 := Num (Fin 100)\<rparr>) spec_example_rows"

definition example_row :: raw_row where
  "example_row =
     \<lparr>Time = Fin 100000, Latitude = Fin 4530, Longitude = Fin 1200,
      CO2 = Num (Fin 400), Temperature = Num (Fin 20), Humidity = Num (Fin 50)\<rparr>"

definition missing_latitude_row :: raw_row where
  "missing_latitude_row = example_row\<lparr>Latitude := NaN\<rparr>"

definition missing_time_row :: raw_row where
  "missing_time_row = example_row\<lparr>Time := NaN\<rparr>"

definition text_co2_table :: "row list" where
  "text_co2_table =
     [\<lparr>Time = Fin 100000, Latitude = Fin 4530, Longitude = Fin 1200,
       CO2 = Text ''abc'', Temperature = Num (Fin 20), Humidity = Num (Fin 50),
       Latitude_DD = Fin (91 / 2), Longitude_DD = Fin 12,
       Easting_m = Fin 500000, Northing_m = Fin 5000000,
       UTM_Zone = 33, Time_HHMMSS = ''10:00:00'', Relative_Seconds = Fin 0\<rparr>]"

text \<open>An auxiliary function for the proofs: the last \<open>k\<close> decimal digits of \<open>n\<close>.\<close>

fun digits :: "nat \<Rightarrow> nat \<Rightarrow> string" where
  "digits 0 n = []"
| "digits (Suc k) n = digits k (n div 10) @ [digit_char (n mod 10)]"

section \<open>Properties\<close>

subsection \<open>Coordinate conversion\<close>

lemma convert_Fin:
  "convert_ddmmss_to_dd (Fin x) =
     Inr (Fin (of_int \<lfloor>x / 100\<rfloor> + (x - 100 * of_int \<lfloor>x / 100\<rfloor>) / 60))"
  by (simp add: convert_ddmmss_to_dd_def)

lemma convert_not_finite:
  "convert_ddmmss_to_dd NaN = Inl (ValueError ''cannot convert float NaN to integer'')"
  "convert_ddmmss_to_dd PInf = Inl (ValueError ''cannot convert float NaN to integer'')"
  "convert_ddmmss_to_dd NInf = Inl (ValueError ''cannot convert float NaN to integer'')"
  by (simp_all add: convert_ddmmss_to_dd_def)

lemma floor_packed:
  assumes "0 \<le> M" "M < 60"
  shows "\<lfloor>(of_int D * 100 + M) / (100::real)\<rfloor> = D"
  using assms by (intro floor_unique) (simp_all add: field_simps)

lemma floor_neg_packed:
  assumes "0 < M" "M < 60"
  shows "\<lfloor>(- (of_int D * 100 + M)) / (100::real)\<rfloor> = - D - 1"
  using assms by (intro floor_unique) (simp_all add: field_simps)

lemma residue_100:
  "0 \<le> x - 100 * of_int \<lfloor>x / 100\<rfloor>" "x - 100 * of_int \<lfloor>x / 100\<rfloor> < (100::real)"
proof -
  have "of_int \<lfloor>x / 100\<rfloor> \<le> x / 100"
    by (rule of_int_floor_le)
  then show "0 \<le> x - 100 * of_int \<lfloor>x / 100\<rfloor>"
    by simp
  have "x / 100 < of_int \<lfloor>x / 100\<rfloor> + 1"
    by linarith
  then show "x - 100 * of_int \<lfloor>x / 100\<rfloor> < (100::real)"
    by linarith
qed

lemma convert_packed:
  assumes "0 \<le> M" "M < 60"
  shows "convert_ddmmss_to_dd (Fin (of_int D * 100 + M)) = Inr (Fin (of_int D + M / 60))"
  unfolding convert_Fin floor_packed [OF assms] by (simp add: field_simps)

lemma convert_neg_packed:
  assumes "0 < M" "M < 60"
  shows "convert_ddmmss_to_dd (Fin (- (of_int D * 100 + M))) =
         Inr (Fin (- of_int D - 1 + (100 - M) / 60))"
  unfolding convert_Fin floor_neg_packed [OF assms] by (simp add: field_simps)

text \<open>
  C3. For a packed coordinate \<open>p = D * 100 + M\<close> with an integer \<open>D \<ge> 0\<close> and
  \<open>0 \<le> M < 60\<close>, the floor division gives the degrees \<open>D\<close>, the residue gives the minutes
  \<open>M\<close>, and the conversion returns \<open>D + M / 60\<close> (in exact arithmetic).
\<close>

theorem convert_valid_packed:
  assumes "0 \<le> D" "0 \<le> M" "M < 60"
  shows "py_int (py_floordiv (Fin (of_int D * 100 + M)) 100) = Inr D
       \<and> py_mod (Fin (of_int D * 100 + M)) 100 = Fin M
       \<and> convert_ddmmss_to_dd (Fin (of_int D * 100 + M)) = Inr (Fin (of_int D + M / 60))"
proof -
  have fl: "\<lfloor>(of_int D * 100 + M) / (100::real)\<rfloor> = D"
    using assms(2,3) by (rule floor_packed)
  have "py_int (py_floordiv (Fin (of_int D * 100 + M)) 100) = Inr D"
    using assms(1) by (simp add: fl)
  moreover have "py_mod (Fin (of_int D * 100 + M)) 100 = Fin M"
    by (simp add: fl)
  moreover have "convert_ddmmss_to_dd (Fin (of_int D * 100 + M)) = Inr (Fin (of_int D + M / 60))"
    using assms(2,3) by (rule convert_packed)
  ultimately show ?thesis
    by blast
qed

theorem convert_valid_packed_witness:
  "(0::int) \<le> 45 \<and> (0::real) \<le> 301234 / 10000 \<and> (301234 / 10000 :: real) < 60
   \<and> py_mod (Fin (of_int 45 * 100 + 301234 / 10000)) 100 = Fin (301234 / 10000)
   \<and> convert_ddmmss_to_dd (Fin (of_int 45 * 100 + 301234 / 10000)) =
       Inr (Fin (of_int 45 + (301234 / 10000) / 60))"
  using convert_valid_packed [of 45 "301234 / 10000"] by simp

text \<open>
  C4, as the code has it. The conversion has no validity check. It raises (the built-in
  \<open>ValueError\<close> of the integer conversion) exactly when its input is NaN or infinite; on
  every finite input, whatever the minutes part, it returns the floor of \<open>coord / 100\<close> plus
  a sixtieth of the residue.
\<close>

theorem convert_fails_only_on_non_finite:
  "convert_ddmmss_to_dd NaN = Inl (ValueError ''cannot convert float NaN to integer'')
   \<and> convert_ddmmss_to_dd PInf = Inl (ValueError ''cannot convert float NaN to integer'')
   \<and> convert_ddmmss_to_dd NInf = Inl (ValueError ''cannot convert float NaN to integer'')
   \<and> convert_ddmmss_to_dd (Fin x) =
       Inr (Fin (of_int \<lfloor>x / 100\<rfloor> + (x - 100 * of_int \<lfloor>x / 100\<rfloor>) / 60))"
  by (simp add: convert_not_finite convert_Fin)

theorem convert_fails_only_on_non_finite_witness:
  "convert_ddmmss_to_dd (Fin 4530) = Inr (Fin (91 / 2))"
  using convert_fails_only_on_non_finite [of 4530] by simp

text \<open>C4 as stated fails: 4575.0 packs 75 minutes, and the conversion returns 46.25.\<close>

theorem convert_minutes_75_counterexample:
  "py_mod (Fin 4575) 100 = Fin 75 \<and> convert_ddmmss_to_dd (Fin 4575) = Inr (Fin (185 / 4))"
  by (simp add: convert_Fin)

text \<open>
  C10. On every finite input the degrees are the floor of \<open>coord / 100\<close> and the minutes
  the residue in \<open>[0, 100)\<close>. So for \<open>p = D * 100 + M\<close> with \<open>D > 0\<close> and \<open>0 < M < 60\<close> the
  conversion of \<open>- p\<close> is \<open>- D - 1 + (100 - M) / 60\<close>, which is not the negation of the
  conversion of \<open>p\<close>: the function is not odd.
\<close>

theorem convert_not_odd:
  assumes "0 < D" "0 < M" "M < 60"
  shows "py_int (py_floordiv (Fin x) 100) = Inr \<lfloor>x / 100\<rfloor>
       \<and> py_mod (Fin x) 100 = Fin (x - 100 * of_int \<lfloor>x / 100\<rfloor>)
       \<and> 0 \<le> x - 100 * of_int \<lfloor>x / 100\<rfloor> \<and> x - 100 * of_int \<lfloor>x / 100\<rfloor> < 100
       \<and> convert_ddmmss_to_dd (Fin (of_int D * 100 + M)) = Inr (Fin (of_int D + M / 60))
       \<and> convert_ddmmss_to_dd (Fin (- (of_int D * 100 + M))) =
           Inr (Fin (- of_int D - 1 + (100 - M) / 60))
       \<and> convert_ddmmss_to_dd (Fin (- (of_int D * 100 + M))) \<noteq>
           Inr (py_neg (Fin (of_int D + M / 60)))"
proof -
  have pos: "convert_ddmmss_to_dd (Fin (of_int D * 100 + M)) = Inr (Fin (of_int D + M / 60))"
    using assms by (intro convert_packed) simp_all
  have neg: "convert_ddmmss_to_dd (Fin (- (of_int D * 100 + M))) =
             Inr (Fin (- of_int D - 1 + (100 - M) / 60))"
    using assms(2,3) by (rule convert_neg_packed)
  have "- of_int D - 1 + (100 - M) / 60 \<noteq> - (of_int D + M / 60)"
    by (simp add: field_simps)
  then have diff: "convert_ddmmss_to_dd (Fin (- (of_int D * 100 + M))) \<noteq>
                   Inr (py_neg (Fin (of_int D + M / 60)))"
    unfolding neg by simp
  have "py_int (py_floordiv (Fin x) 100) = Inr \<lfloor>x / 100\<rfloor>"
    by simp
  moreover have "py_mod (Fin x) 100 = Fin (x - 100 * of_int \<lfloor>x / 100\<rfloor>)"
    by simp
  ultimately show ?thesis
    using pos neg diff residue_100 [of x] by blast
qed

theorem convert_not_odd_witness:
  "(0::int) < 45 \<and> (0::real) < 30 \<and> (30::real) < 60
   \<and> convert_ddmmss_to_dd (Fin (of_int 45 * 100 + 30)) = Inr (Fin (91 / 2))
   \<and> convert_ddmmss_to_dd (Fin (- (of_int 45 * 100 + 30))) = Inr (Fin (- 269 / 6))"
  using convert_not_odd [of 45 30 0] by simp

subsection \<open>Zone selection\<close>

lemma utm_zone_Fin:
  "utm_zone rnd (Fin m) =
     Inr ((if 0 \<le> rnd (rnd (m + 180) / 6) then \<lfloor>rnd (rnd (m + 180) / 6)\<rfloor>
           else \<lceil>rnd (rnd (m + 180) / 6)\<rceil>) + 1)"
  by (simp add: utm_zone_def)

lemma utm_zone_exact: "utm_zone (\<lambda>x. x) (Fin m) =
     Inr ((if 0 \<le> (m + 180) / 6 then \<lfloor>(m + 180) / 6\<rfloor> else \<lceil>(m + 180) / 6\<rceil>) + 1)"
  by (simp add: utm_zone_Fin)

lemma exact_mono: "mono (\<lambda>x::real. x)"
  by (simp add: mono_def)

lemma quotient_nonneg:
  fixes rnd :: "real \<Rightarrow> real"
  assumes m: "mono rnd" and zero: "rnd 0 = 0" and "- 180 \<le> m"
  shows "0 \<le> rnd (rnd (m + 180) / 6)"
proof -
  have "rnd 0 \<le> rnd (m + 180)"
    using assms(3) by (intro monoD [OF m]) simp
  then have "0 \<le> rnd (m + 180) / 6"
    by (simp add: zero)
  then have "rnd 0 \<le> rnd (rnd (m + 180) / 6)"
    by (rule monoD [OF m])
  then show ?thesis
    by (simp add: zero)
qed

text \<open>In doubles the sum \<open>m + 180\<close> rounds to 360 for the doubles just below 180: the zone
  is then 61 although \<open>m < 180\<close>.\<close>

lemma utm_zone_sum_rounds_to_360:
  assumes "rnd 60 = 60" "rnd (m + 180) = 360"
  shows "utm_zone rnd (Fin m) = Inr 61"
  by (simp add: utm_zone_Fin assms)

text \<open>
  C5, as the code has it. The rounding of the two float operations is any monotone
  function that leaves the doubles named in the theorem unchanged. For a mean longitude
  \<open>m \<ge> -180\<close> the zone is the floor of the float quotient \<open>(m + 180) / 6\<close> plus 1 and is at
  least 1; it is at most 60 for \<open>m \<le> 180 - 1/1024\<close>. Where both operations are exact it is
  \<open>floor ((m + 180) / 6) + 1\<close>, at most 60 for \<open>m < 180\<close>. The zone of -3.0 is 30, that of
  177.0 is 60 and that of -180.0 is 1.
\<close>

theorem utm_zone_in_range:
  fixes rnd :: "real \<Rightarrow> real"
  assumes m: "mono rnd"
    and zero: "rnd 0 = 0"
    and near: "rnd (368639 / 1024) = 368639 / 1024" "rnd (491519 / 8192) = 491519 / 8192"
    and ex: "rnd 177 = 177" "rnd (59 / 2) = 59 / 2" "rnd 357 = 357" "rnd (119 / 2) = 119 / 2"
    and lo: "- 180 \<le> m"
  shows "utm_zone rnd (Fin m) = Inr (\<lfloor>rnd (rnd (m + 180) / 6)\<rfloor> + 1)
       \<and> 1 \<le> \<lfloor>rnd (rnd (m + 180) / 6)\<rfloor> + 1
       \<and> (m \<le> 180 - 1 / 1024 \<longrightarrow> \<lfloor>rnd (rnd (m + 180) / 6)\<rfloor> + 1 \<le> 60)
       \<and> (rnd (m + 180) = m + 180 \<and> rnd ((m + 180) / 6) = (m + 180) / 6 \<longrightarrow>
            utm_zone rnd (Fin m) = Inr (\<lfloor>(m + 180) / 6\<rfloor> + 1)
          \<and> (m < 180 \<longrightarrow> \<lfloor>(m + 180) / 6\<rfloor> + 1 \<le> 60))
       \<and> utm_zone rnd (Fin (- 3)) = Inr 30
       \<and> utm_zone rnd (Fin 177) = Inr 60
       \<and> utm_zone rnd (Fin (- 180)) = Inr 1"
proof -
  have q: "0 \<le> rnd (rnd (m + 180) / 6)"
    using m zero lo by (rule quotient_nonneg)
  then have z: "utm_zone rnd (Fin m) = Inr (\<lfloor>rnd (rnd (m + 180) / 6)\<rfloor> + 1)"
    by (simp add: utm_zone_Fin)
  have one: "1 \<le> \<lfloor>rnd (rnd (m + 180) / 6)\<rfloor> + 1"
    using q by simp
  have sixty: "\<lfloor>rnd (rnd (m + 180) / 6)\<rfloor> + 1 \<le> 60" if "m \<le> 180 - 1 / 1024"
  proof -
    from that have "m + 180 \<le> 368639 / 1024"
      by simp
    then have "rnd (m + 180) \<le> rnd (368639 / 1024)"
      by (rule monoD [OF m])
    then have "rnd (m + 180) / 6 \<le> 491519 / 8192"
      by (simp add: near(1))
    then have "rnd (rnd (m + 180) / 6) \<le> rnd (491519 / 8192)"
      by (rule monoD [OF m])
    then have "rnd (rnd (m + 180) / 6) < 60"
      by (simp add: near(2))
    then show ?thesis
      by (simp add: floor_less_iff)
  qed
  have exact: "utm_zone rnd (Fin m) = Inr (\<lfloor>(m + 180) / 6\<rfloor> + 1)
      \<and> (m < 180 \<longrightarrow> \<lfloor>(m + 180) / 6\<rfloor> + 1 \<le> 60)"
    if "rnd (m + 180) = m + 180 \<and> rnd ((m + 180) / 6) = (m + 180) / 6"
  proof -
    from that have "rnd (rnd (m + 180) / 6) = (m + 180) / 6"
      by (simp only:)
    with z have "utm_zone rnd (Fin m) = Inr (\<lfloor>(m + 180) / 6\<rfloor> + 1)"
      by (simp only:)
    moreover have "m < 180 \<longrightarrow> \<lfloor>(m + 180) / 6\<rfloor> + 1 \<le> 60"
      by (simp add: floor_less_iff)
    ultimately show ?thesis
      by blast
  qed
  have "utm_zone rnd (Fin (- 3)) = Inr 30" "utm_zone rnd (Fin 177) = Inr 60"
    "utm_zone rnd (Fin (- 180)) = Inr 1"
    by (simp_all add: utm_zone_Fin ex zero)
  with z one sixty exact show ?thesis
    by blast
qed

theorem utm_zone_in_range_witness:
  "(- 180 :: real) \<le> 12 \<and> (12::real) \<le> 180 - 1 / 1024
   \<and> utm_zone (\<lambda>x. x) (Fin 12) = Inr 33
   \<and> utm_zone (\<lambda>x. x) (Fin (- 3)) = Inr 30"
  using utm_zone_in_range [of "\<lambda>x. x" 12] by (simp add: exact_mono)

text \<open>C5 as stated fails: the zone of -3.0 is 30, not 31, and the zone of 180.0 is 61. (All
  operations are exact at these two arguments.)\<close>

theorem utm_zone_counterexample:
  "utm_zone (\<lambda>x. x) (Fin (- 3)) \<noteq> Inr 31
   \<and> utm_zone (\<lambda>x. x) (Fin (- 3)) = Inr 30
   \<and> utm_zone (\<lambda>x. x) (Fin 180) = Inr 61"
  by (simp add: utm_zone_exact)

subsection \<open>Decimal strings and times of day\<close>

lemma digit_char_0: "digit_char 0 = CHR ''0''"
  by (simp add: digit_char_def)

lemma digits_zero: "digits k 0 = replicate k CHR ''0''"
  by (induction k) (simp_all add: digit_char_0 replicate_append_same)

lemma str_nat_small: "n < 10 \<Longrightarrow> str_nat n = [digit_char n]"
  by (subst str_nat.simps) simp

lemma str_nat_big: "10 \<le> n \<Longrightarrow> str_nat n = str_nat (n div 10) @ [digit_char (n mod 10)]"
  by (subst str_nat.simps) simp

lemma str_nat_digits:
  "n < 10 ^ Suc k \<Longrightarrow> length (str_nat n) \<le> Suc k \<and>
     replicate (Suc k - length (str_nat n)) CHR ''0'' @ str_nat n = digits (Suc k) n"
proof (induction k arbitrary: n)
  case 0
  then show ?case by (simp add: str_nat_small)
next
  case (Suc k)
  show ?case
  proof (cases "n < 10")
    case True
    then show ?thesis
      by (simp add: str_nat_small digits_zero replicate_append_same)
  next
    case False
    then have big: "10 \<le> n" by simp
    have "n div 10 < 10 ^ Suc k"
      using Suc.prems by (simp add: less_mult_imp_div_less mult.commute)
    from Suc.IH [OF this] show ?thesis
      by (simp add: str_nat_big [OF big] Suc_diff_le)
  qed
qed

lemma str_nat_nonempty: "str_nat n \<noteq> []"
  by (subst str_nat.simps) simp

lemma digit_cases:
  assumes "d < 10"
  obtains "d = 9" | "d = 8" | "d = 7" | "d = 6" | "d = 5" | "d = 4" | "d = 3" | "d = 2"
    | "d = 1" | "d = (0::nat)"
proof -
  from assms have "d = 9 \<or> d = 8 \<or> d = 7 \<or> d = 6 \<or> d = 5 \<or> d = 4 \<or> d = 3 \<or> d = 2 \<or> d = 1 \<or> d = 0"
    by arith
  then show thesis
    using that by blast
qed

lemma digit_char_not_sign:
  assumes "d < 10"
  shows "digit_char d \<noteq> CHR ''-'' \<and> digit_char d \<noteq> CHR ''+''"
  using assms by (rule digit_cases) (simp_all add: digit_char_def)

lemma hd_str_nat: "\<exists>d s. d < 10 \<and> str_nat n = digit_char d # s"
proof (induction n rule: str_nat.induct)
  case (1 n)
  show ?case
  proof (cases "n < 10")
    case True
    then show ?thesis by (auto simp: str_nat_small)
  next
    case False
    with 1 obtain d s where "d < 10" "str_nat (n div 10) = digit_char d # s" by auto
    with False show ?thesis by (auto simp: str_nat_big)
  qed
qed

lemma zfill_str_nat:
  assumes "n < 10 ^ Suc k"
  shows "zfill (Suc k) (str_nat n) = digits (Suc k) n"
proof -
  obtain d s where d: "d < 10" "str_nat n = digit_char d # s"
    using hd_str_nat by blast
  from str_nat_digits [OF assms]
  have len: "length (str_nat n) \<le> Suc k"
    and pad: "replicate (Suc k - length (str_nat n)) CHR ''0'' @ str_nat n = digits (Suc k) n"
    by simp_all
  show ?thesis
  proof (cases "length (str_nat n) = Suc k")
    case True
    with pad show ?thesis by (simp add: zfill_def)
  next
    case False
    with len have "length (str_nat n) < Suc k" by simp
    with pad d digit_char_not_sign [OF d(1)] show ?thesis
      by (simp add: zfill_def)
  qed
qed



lemma digits6:
  "digits 6 n =
     [digit_char (n div 100000 mod 10), digit_char (n div 10000 mod 10),
      digit_char (n div 1000 mod 10), digit_char (n div 100 mod 10),
      digit_char (n div 10 mod 10), digit_char (n mod 10)]"
proof -
  have six: "(6::nat) = Suc (Suc (Suc (Suc (Suc (Suc 0)))))"
    by simp
  have "digits (Suc (Suc (Suc (Suc (Suc (Suc 0)))))) n =
     [digit_char (n div 10 div 10 div 10 div 10 div 10 mod 10),
      digit_char (n div 10 div 10 div 10 div 10 mod 10),
      digit_char (n div 10 div 10 div 10 mod 10), digit_char (n div 10 div 10 mod 10),
      digit_char (n div 10 mod 10), digit_char (n mod 10)]"
    by (simp only: digits.simps append.simps)
  then show ?thesis
    unfolding six by (simp flip: div_mult2_eq)
qed

lemma zfill6: "n < 1000000 \<Longrightarrow> zfill 6 (str_nat n) = digits 6 n"
  using zfill_str_nat [of n 5] by simp



lemma digit_char_facts:
  assumes "n < 10"
  shows "is_digit (digit_char n)"
    and "digit_val (digit_char n) = n"
    and "(digit_char n = CHR ''0'') = (n = 0)"
    and "(digit_char n = CHR ''1'') = (n = 1)"
    and "(digit_char n = CHR ''2'') = (n = 2)"
    and "(digit_char n = CHR ''3'') = (n = 3)"
    and "(digit_char n = CHR ''4'') = (n = 4)"
    and "(digit_char n = CHR ''5'') = (n = 5)"
    and "(digit_char n = CHR ''6'') = (n = 6)"
  using assms by (rule digit_cases; simp add: digit_char_def is_digit_def digit_val_def)+

lemma nat_of_digits2: "a < 10 \<Longrightarrow> b < 10 \<Longrightarrow> nat_of_digits [digit_char a, digit_char b] = 10 * a + b"
  by (simp add: nat_of_digits_def digit_char_facts)

lemma strptime_digits:
  assumes "a < 10" "b < 10" "c < 10" "d < 10" "e < 10" "f < 10"
    and "10 * a + b < 24" "10 * c + d < 60" "10 * e + f < 60"
  shows "strptime_HMS [digit_char a, digit_char b, digit_char c, digit_char d, digit_char e, digit_char f]
       = Inr \<lparr>hour = 10 * a + b, minute = 10 * c + d, second = 10 * e + f\<rparr>"
proof -
  let ?s = "[digit_char a, digit_char b, digit_char c, digit_char d, digit_char e, digit_char f]"
  have H: "match_H ?s = 2"
    using assms by (simp add: digit_char_facts) arith
  have M: "match_M (drop 2 ?s) = 2"
    using assms by (simp add: digit_char_facts) arith
  have S: "match_S (drop 2 (drop 2 ?s)) = 2"
    using assms by (simp add: digit_char_facts) arith
  show ?thesis
    using assms unfolding strptime_HMS_def Let_def H M S
    by (simp add: nat_of_digits2)
qed

lemma two_digits: "10 * (q div 10 mod 10) + q mod 10 = (q::nat) mod 100"
  using mod_mult2_eq [of q 10 10] by simp

lemma strptime_valid_nat:
  fixes n :: nat
  assumes "n div 10000 < 24" "n div 100 mod 100 < 60" "n mod 100 < 60"
  shows "strptime_HMS (zfill 6 (str_nat n)) =
         Inr \<lparr>hour = n div 10000, minute = n div 100 mod 100, second = n mod 100\<rparr>"
proof -
  have "n < 24 * 10000"
    using assms(1) by (simp only: div_less_iff_less_mult [symmetric] zero_less_numeral)
  then have small: "n < 1000000"
    by simp
  have d5: "n div 100000 = n div 10000 div 10" and d3: "n div 1000 = n div 100 div 10"
    by (simp_all add: div_mult2_eq [symmetric])
  have H: "10 * (n div 100000 mod 10) + n div 10000 mod 10 = n div 10000"
    using assms(1) unfolding d5 two_digits by simp
  have M: "10 * (n div 1000 mod 10) + n div 100 mod 10 = n div 100 mod 100"
    unfolding d3 two_digits by simp
  have S: "10 * (n div 10 mod 10) + n mod 10 = n mod 100"
    by (rule two_digits)
  have "strptime_HMS (digits 6 n) =
        Inr \<lparr>hour = 10 * (n div 100000 mod 10) + n div 10000 mod 10,
             minute = 10 * (n div 1000 mod 10) + n div 100 mod 10,
             second = 10 * (n div 10 mod 10) + n mod 10\<rparr>"
    unfolding digits6
  proof (intro strptime_digits)
    show "10 * (n div 100000 mod 10) + n div 10000 mod 10 < 24"
      unfolding H by (rule assms(1))
    show "10 * (n div 1000 mod 10) + n div 100 mod 10 < 60"
      unfolding M by (rule assms(2))
    show "10 * (n div 10 mod 10) + n mod 10 < 60"
      unfolding S by (rule assms(3))
  qed simp_all
  then show ?thesis
    by (simp add: zfill6 [OF small] H M S)
qed

lemma strptime_valid:
  assumes "valid_hhmmss t"
  shows "strptime_HMS (zfill 6 (str_int t)) =
         Inr \<lparr>hour = nat (HH_of t), minute = nat (MM_of t), second = nat (SS_of t)\<rparr>"
proof -
  from assms have t: "0 \<le> t" by (simp add: valid_hhmmss_def)
  then obtain n where n: "t = int n" by (metis nonneg_int_cases)
  have h: "HH_of t = int (n div 10000)" and m: "MM_of t = int (n div 100 mod 100)"
    and s: "SS_of t = int (n mod 100)"
    by (simp_all add: n HH_of_def MM_of_def SS_of_def zdiv_int zmod_int)
  from assms have "n div 10000 < 24" "n div 100 mod 100 < 60" "n mod 100 < 60"
    unfolding valid_hhmmss_def h m s by simp_all
  from strptime_valid_nat [OF this] show ?thesis
    unfolding h m s by (simp add: n str_int_def)
qed

lemma py_int_of_int: "py_int (Fin (of_int t)) = Inr t"
  by simp


subsection \<open>Loading\<close>

lemma map_result_Cons_Inr:
  "map_result f (x # xs) = Inr zs \<longleftrightarrow> (\<exists>y ys. f x = Inr y \<and> map_result f xs = Inr ys \<and> zs = y # ys)"
  by (auto split: sum.splits)

lemma map_result_length: "map_result f xs = Inr ys \<Longrightarrow> length ys = length xs"
  by (induction xs arbitrary: ys) (auto split: sum.splits)

lemma map_result_Inr_all: "map_result f xs = Inr ys \<Longrightarrow> \<forall>x\<in>set xs. \<exists>y. f x = Inr y"
  by (induction xs arbitrary: ys) (auto split: sum.splits)

lemma map_result_Inl_ex: "map_result f xs = Inl e \<Longrightarrow> \<exists>x\<in>set xs. f x = Inl e"
  by (induction xs) (auto split: sum.splits)

lemma map_result_map: "map_result f (map g xs) = map_result (\<lambda>x. f (g x)) xs"
  by (induction xs) (auto split: sum.splits)

lemma assemble_length:
  "length las = length rs \<Longrightarrow> length los = length rs \<Longrightarrow> length ens = length rs \<Longrightarrow>
   length ts = length rs \<Longrightarrow> length ss = length rs \<Longrightarrow>
   length (assemble rs las los ens z ts ss) = length rs"
proof (induction rs arbitrary: las los ens ts ss)
  case Nil
  then show ?case by simp
next
  case (Cons r rs)
  then obtain la las' lo los' en ens' t ts' s ss' where
    "las = la # las'" "los = lo # los'" "ens = en # ens'" "ts = t # ts'" "ss = s # ss'"
    by (metis length_Suc_conv)
  with Cons show ?case by simp
qed

lemma first_row_relative_seconds:
  assumes "load_and_prepare_data rnd utm_transformer df = Inr rows"
  shows "rows \<noteq> [] \<and> Relative_Seconds (hd rows) = Fin 0"
proof -
  from assms obtain lat_dd lon_dd zone transform hhmmss r0 rest i0 start_time rel where
    lat: "map_result convert_ddmmss_to_dd (map Latitude df) = Inr lat_dd" and
    lon: "map_result convert_ddmmss_to_dd (map Longitude df) = Inr lon_dd" and
    fmt: "map_result format_time_string (map Time df) = Inr hhmmss" and
    df: "df = r0 # rest" and
    i0: "py_int (Time r0) = Inr i0" and
    st: "strptime_HMS (zfill 6 (str_int i0)) = Inr start_time" and
    rel: "map_result (\<lambda>r. calculate_relative_seconds r start_time) df = Inr rel" and
    rows: "rows = assemble df lat_dd lon_dd (map (\<lambda>(lo, la). transform lo la) (zip lon_dd lat_dd)) zone hhmmss rel"
    unfolding load_and_prepare_data_def
    by (auto simp: Let_def simp del: map_result.simps split: sum.splits option.splits list.splits)
  from lat lon fmt obtain la las lo los t ts where
    l: "lat_dd = la # las" "lon_dd = lo # los" "hhmmss = t # ts"
    unfolding df by (auto simp: map_result_Cons_Inr simp del: map_result.simps)
  from rel obtain s ss where r: "rel = s # ss" "calculate_relative_seconds r0 start_time = Inr s"
    unfolding df by (auto simp: map_result_Cons_Inr simp del: map_result.simps)
  from r(2) i0 st have "s = Fin 0"
    by (simp add: calculate_relative_seconds_def total_seconds_between_def)
  then show ?thesis
    unfolding rows df l r(1) by simp
qed

lemma str_int_33: "str_int 33 = ''33''"
  by (simp add: str_int_def str_nat_big str_nat_small digit_char_def)

lemma format_time_example: "format_time_string (Fin 100000) = Inr ''10:00:00''"
  "format_time_string (Fin 100100) = Inr ''10:01:00''"
  "format_time_string (Fin 100200) = Inr ''10:02:00''"
  by (simp_all add: format_time_string_def str_int_def zfill6 digits6 slice_def digit_char_def)

lemma valid_example: "valid_hhmmss 100000" "valid_hhmmss 100100" "valid_hhmmss 100200"
  by (simp_all add: valid_hhmmss_def HH_of_def MM_of_def SS_of_def)

lemma strptime_example: 
  "strptime_HMS (zfill 6 (str_int 100000)) = Inr \<lparr>hour = 10, minute = 0, second = 0\<rparr>"
  "strptime_HMS (zfill 6 (str_int 100100)) = Inr \<lparr>hour = 10, minute = 1, second = 0\<rparr>"
  "strptime_HMS (zfill 6 (str_int 100200)) = Inr \<lparr>hour = 10, minute = 2, second = 0\<rparr>"
  using strptime_valid [OF valid_example(1)] strptime_valid [OF valid_example(2)] strptime_valid [OF valid_example(3)]
  by (simp_all add: HH_of_def MM_of_def SS_of_def)

text \<open>The zone of the example is 33 under every monotone rounding that leaves the doubles
  192, 193, 32 and 32.5 unchanged.\<close>

lemma zone_example:
  fixes rnd :: "real \<Rightarrow> real"
  assumes m: "mono rnd"
    and ex: "rnd 192 = 192" "rnd 193 = 193" "rnd 32 = 32" "rnd (65 / 2) = 65 / 2"
  shows "utm_zone rnd (series_mean [Fin 12, Fin (7201 / 600), Fin (3601 / 300)]) = Inr 33"
proof -
  have mean: "series_mean [Fin 12, Fin (7201 / 600), Fin (3601 / 300)] = Fin (7201 / 600)"
    by (simp add: series_mean_def)
  have "rnd 192 \<le> rnd (7201 / 600 + 180)" "rnd (7201 / 600 + 180) \<le> rnd 193"
    by (rule monoD [OF m], simp)+
  then have b: "32 \<le> rnd (7201 / 600 + 180) / 6" "rnd (7201 / 600 + 180) / 6 \<le> 65 / 2"
    by (simp_all add: ex)
  have "rnd 32 \<le> rnd (rnd (7201 / 600 + 180) / 6)"
    "rnd (rnd (7201 / 600 + 180) / 6) \<le> rnd (65 / 2)"
    using b by (auto intro: monoD [OF m])
  then have q: "32 \<le> rnd (rnd (7201 / 600 + 180) / 6)" "rnd (rnd (7201 / 600 + 180) / 6) < 33"
    by (simp_all add: ex)
  then have "\<lfloor>rnd (rnd (7201 / 600 + 180) / 6)\<rfloor> = 32"
    by (intro floor_unique) simp_all
  with q(1) show ?thesis
    unfolding mean utm_zone_Fin by simp
qed

lemma load_spec_example:
  fixes rnd :: "real \<Rightarrow> real"
  assumes m: "mono rnd"
    and ex: "rnd 192 = 192" "rnd 193 = 193" "rnd 32 = 32" "rnd (65 / 2) = 65 / 2"
    and tr: "utm_transformer ''32633'' = Some transform"
  shows "load_and_prepare_data rnd utm_transformer spec_example_rows =
    Inr [\<lparr>Time = Fin 100000, Latitude = Fin 4530, Longitude = Fin 1200,
       CO2 = Num (Fin 400), Temperature = Num (Fin 20), Humidity = Num (Fin 50),
       Latitude_DD = Fin (91 / 2), Longitude_DD = Fin 12,
       Easting_m = fst (transform (Fin 12) (Fin (91 / 2))), Northing_m = snd (transform (Fin 12) (Fin (91 / 2))),
       UTM_Zone = 33, Time_HHMMSS = ''10:00:00'', Relative_Seconds = Fin 0\<rparr>,
      \<lparr>Time = Fin 100100, Latitude = Fin (45301 / 10), Longitude = Fin (12001 / 10),
       CO2 = Num (Fin 800), Temperature = Num (Fin 21), Humidity = Num (Fin 51),
       Latitude_DD = Fin (27301 / 600), Longitude_DD = Fin (7201 / 600),
       Easting_m = fst (transform (Fin (7201 / 600)) (Fin (27301 / 600))), Northing_m = snd (transform (Fin (7201 / 600)) (Fin (27301 / 600))),
       UTM_Zone = 33, Time_HHMMSS = ''10:01:00'', Relative_Seconds = Fin 60\<rparr>,
      \<lparr>Time = Fin 100200, Latitude = Fin (45302 / 10), Longitude = Fin (12002 / 10),
       CO2 = Num (Fin 1200), Temperature = Num (Fin 22), Humidity = Num (Fin 52),
       Latitude_DD = Fin (13651 / 300), Longitude_DD = Fin (3601 / 300),
       Easting_m = fst (transform (Fin (3601 / 300)) (Fin (13651 / 300))), Northing_m = snd (transform (Fin (3601 / 300)) (Fin (13651 / 300))),
       UTM_Zone = 33, Time_HHMMSS = ''10:02:00'', Relative_Seconds = Fin 120\<rparr>]"
  by (simp add: load_and_prepare_data_def spec_example_rows_def convert_Fin
       zone_example [OF m ex] str_int_33 tr format_time_example
       calculate_relative_seconds_def strptime_example total_seconds_between_def seconds_of_day_def)

subsection \<open>Elapsed seconds\<close>

text \<open>
  C8. For valid packed times \<open>h\<close> (the row's) and \<open>s\<close> (the reference), the reference
  parses, and the relative seconds of the row are the signed difference of the two times
  of day in seconds, with no wrap at midnight; for \<open>h = s\<close> they are 0. Whenever the
  loading succeeds, the first row's relative seconds are 0.
\<close>

theorem elapsed_seconds_signed_difference:
  assumes "valid_hhmmss h" "valid_hhmmss s" "Time r = Fin (of_int h)"
  shows "\<exists>start_time.
           strptime_HMS (zfill 6 (str_int s)) = Inr start_time
         \<and> calculate_relative_seconds r start_time =
             Inr (Fin (of_int (seconds_since_midnight h - seconds_since_midnight s)))
         \<and> (h = s \<longrightarrow> calculate_relative_seconds r start_time = Inr (Fin 0))
         \<and> (load_and_prepare_data rnd utm_transformer df = Inr rows \<longrightarrow>
              rows \<noteq> [] \<and> Relative_Seconds (hd rows) = Fin 0)"
proof -
  from assms(1) have "0 \<le> HH_of h" "0 \<le> MM_of h" "0 \<le> SS_of h"
    by (simp_all add: valid_hhmmss_def HH_of_def MM_of_def SS_of_def pos_imp_zdiv_nonneg_iff)
  moreover from assms(2) have "0 \<le> HH_of s" "0 \<le> MM_of s" "0 \<le> SS_of s"
    by (simp_all add: valid_hhmmss_def HH_of_def MM_of_def SS_of_def pos_imp_zdiv_nonneg_iff)
  ultimately have rel:
    "calculate_relative_seconds r
       \<lparr>hour = nat (HH_of s), minute = nat (MM_of s), second = nat (SS_of s)\<rparr> =
     Inr (Fin (of_int (seconds_since_midnight h - seconds_since_midnight s)))"
    using assms(3)
    by (simp add: calculate_relative_seconds_def strptime_valid [OF assms(1)]
        total_seconds_between_def seconds_of_day_def seconds_since_midnight_def)
  show ?thesis
    using strptime_valid [OF assms(2)] rel first_row_relative_seconds [of rnd utm_transformer df rows]
    by auto
qed

theorem elapsed_seconds_signed_difference_witness:
  "valid_hhmmss 100200 \<and> valid_hhmmss 100000
   \<and> (\<exists>start_time.
         strptime_HMS (zfill 6 (str_int 100000)) = Inr start_time
       \<and> calculate_relative_seconds
           \<lparr>Time = Fin (of_int 100200), Latitude = Fin 4530, Longitude = Fin 1200,
            CO2 = Num (Fin 400), Temperature = Num (Fin 20), Humidity = Num (Fin 50)\<rparr>
           start_time = Inr (Fin 120))
   \<and> (\<exists>rows. load_and_prepare_data (\<lambda>x. x) (\<lambda>code. Some (\<lambda>lo la. (lo, la))) spec_example_rows = Inr rows
         \<and> rows \<noteq> [] \<and> Relative_Seconds (hd rows) = Fin 0)"
proof -
  let ?r = "\<lparr>Time = Fin (of_int 100200), Latitude = Fin 4530, Longitude = Fin 1200,
            CO2 = Num (Fin 400), Temperature = Num (Fin 20), Humidity = Num (Fin 50)\<rparr>"
  let ?P = "\<lambda>code::string. Some (\<lambda>lo la::pyfloat. (lo, la))"
  have v: "valid_hhmmss 100200" "valid_hhmmss 100000"
    by (simp_all add: valid_hhmmss_def HH_of_def MM_of_def SS_of_def)
  have d: "seconds_since_midnight 100200 - seconds_since_midnight 100000 = 120"
    by (simp add: seconds_since_midnight_def HH_of_def MM_of_def SS_of_def)
  obtain rows where L: "load_and_prepare_data (\<lambda>x. x) ?P spec_example_rows = Inr rows"
    using load_spec_example [of "\<lambda>x. x" ?P "\<lambda>lo la. (lo, la)"] by (simp add: exact_mono)
  have "Time ?r = Fin (of_int 100200)"
    by simp
  from elapsed_seconds_signed_difference [OF v this, of "\<lambda>x. x" ?P spec_example_rows rows] L d v
  show ?thesis
    by auto
qed

subsection \<open>The end-to-end example\<close>

lemma minmax_example:
  "series_min [Fin 400, Fin 800, Fin 1200] = Fin 400"
  "series_max [Fin 400, Fin 800, Fin 1200] = Fin 1200"
  by (simp_all add: series_min_def series_max_def)

lemma nonsingular_threshold_small: "nonsingular_threshold < 1"
proof -
  have "(10::real) ^ 21 < 2 ^ 70"
    by simp
  also have "(2::real) ^ 70 \<le> 2 ^ 1022"
    by (rule power_increasing) simp_all
  finally show ?thesis
    by (simp add: nonsingular_threshold_def)
qed

lemma nonsingular_threshold_pos: "0 < nonsingular_threshold"
  by (simp add: nonsingular_threshold_def)

lemma nonsingular_example: "nonsingular (Fin 400) (Fin 1200) (1 / 10) = (Fin 400, Fin 1200)"
  using nonsingular_threshold_small by (simp add: nonsingular_def)

lemma kml_colors_example:
  "get_kml_color cmap (Fin 400) (Fin 1200) (Fin 400) = to_bytes (cmap (Fin 0))"
  "get_kml_color cmap (Fin 400) (Fin 1200) (Fin 800) = to_bytes (cmap (Fin (1 / 2)))"
  "get_kml_color cmap (Fin 400) (Fin 1200) (Fin 1200) = to_bytes (cmap (Fin 1))"
  by (simp_all add: get_kml_color_def py_sub_def)

lemma normalize_example:
  "Normalize (Fin 400) (Fin 1200) (Fin 400) = Fin 0"
  "Normalize (Fin 400) (Fin 1200) (Fin 800) = Fin (1 / 2)"
  "Normalize (Fin 400) (Fin 1200) (Fin 1200) = Fin 1"
  by (simp_all add: Normalize_def py_sub_def)

lemma ramp_anchors:
  "RdYlGn_r (Fin 0) = green_anchor"
  "RdYlGn_r (Fin (1 / 2)) = yellow_anchor"
  "RdYlGn_r (Fin 1) = red_anchor"
  by (simp_all add: lerp_def green_anchor_def yellow_anchor_def red_anchor_def)

lemma anchor_bytes:
  "to_bytes green_anchor = (0, 104, 55, 255)"
  "to_bytes yellow_anchor = (255, 255, 191, 255)"
  "to_bytes red_anchor = (165, 0, 38, 255)"
  "to_bytes bad_color = (0, 0, 0, 0)"
  by (simp_all add: green_anchor_def yellow_anchor_def red_anchor_def bad_color_def
      to_bytes_def trunc_def)

text \<open>
  C9. When the CRS library knows the code 32633 of the example's zone (and the rounding
  in the zone selection is monotone and leaves the doubles 192, 193, 32 and 32.5
  unchanged, as the machine's and exact arithmetic do), loading the three rows of the
  example gives three rows in the input order with the time strings
  10:00:00, 10:01:00, 10:02:00 and the relative seconds 0, 60, 120. The main program then
  colours the CO2 values 400, 800, 1200, in the chart and in the document, with the colour
  map at 0, 1/2 and 1; on the ramp these are the green, yellow and red anchors.
\<close>

theorem end_to_end_example:
  fixes rnd :: "real \<Rightarrow> real"
  assumes m: "mono rnd"
    and ex: "rnd 192 = 192" "rnd 193 = 193" "rnd 32 = 32" "rnd (65 / 2) = 65 / 2"
    and tr: "utm_transformer ''32633'' = Some transform"
  shows "\<exists>df ch k.
      load_and_prepare_data rnd utm_transformer spec_example_rows = Inr df
    \<and> length df = 3
    \<and> map Time df = map Time spec_example_rows
    \<and> map CO2 df = map CO2 spec_example_rows
    \<and> map Time_HHMMSS df = [''10:00:00'', ''10:01:00'', ''10:02:00'']
    \<and> map Relative_Seconds df = [Fin 0, Fin 60, Fin 120]
    \<and> main rnd utm_transformer parse cmap spec_example_rows = Inr (ch, k)
    \<and> scatter_colors ch = [cmap (Fin 0), cmap (Fin (1 / 2)), cmap (Fin 1)]
    \<and> map icon_color (points k) =
         [to_bytes (cmap (Fin 0)), to_bytes (cmap (Fin (1 / 2))), to_bytes (cmap (Fin 1))]
    \<and> RdYlGn_r (Fin 0) = green_anchor
    \<and> RdYlGn_r (Fin (1 / 2)) = yellow_anchor
    \<and> RdYlGn_r (Fin 1) = red_anchor"
proof -
  note L = load_spec_example [of rnd utm_transformer transform, OF m ex tr]
  show ?thesis
    unfolding main_def L
    by (simp add: spec_example_rows_def draw_plots_def generate_kml_trajectory_def Let_def
        to_numeric_def minmax_example nonsingular_example kml_colors_example normalize_example
        lerp_def green_anchor_def yellow_anchor_def red_anchor_def)
qed

theorem end_to_end_example_witness:
  "\<exists>ch k. main (\<lambda>x. x) (\<lambda>code. Some (\<lambda>lo la. (lo, la))) (\<lambda>s. None) RdYlGn_r spec_example_rows
             = Inr (ch, k)
     \<and> scatter_colors ch = [green_anchor, yellow_anchor, red_anchor]
     \<and> map icon_color (points k) = [(0, 104, 55, 255), (255, 255, 191, 255), (165, 0, 38, 255)]"
proof -
  let ?P = "\<lambda>code::string. Some (\<lambda>lo la::pyfloat. (lo, la))"
  have "?P ''32633'' = Some (\<lambda>lo la. (lo, la))"
    by simp
  from end_to_end_example [of "\<lambda>x. x" ?P "\<lambda>lo la. (lo, la)" "\<lambda>s. None" RdYlGn_r]
  show ?thesis
    by (auto simp: anchor_bytes exact_mono)
qed

subsection \<open>Colour scale\<close>

text \<open>The minimum of a column is never above its maximum, so the bounds the chart gives to
  \<open>Normalize\<close> are never rejected.\<close>

lemma py_less_trans_le:
  "py_less x y \<Longrightarrow> \<not> py_less z y \<Longrightarrow> \<not> is_nan z \<Longrightarrow> py_less x z"
  by (cases x; cases y; cases z) simp_all

lemma foldl_min_le:
  "\<not> is_nan a \<Longrightarrow> \<forall>x\<in>set ys. \<not> is_nan x \<Longrightarrow>
   \<not> is_nan (foldl (\<lambda>m x. if py_less x m then x else m) a ys)
   \<and> \<not> py_less a (foldl (\<lambda>m x. if py_less x m then x else m) a ys)"
proof (induction ys arbitrary: a)
  case Nil
  then show ?case by (cases a) simp_all
next
  case (Cons y ys)
  show ?case
  proof (cases "py_less y a")
    case True
    from Cons.prems have "\<not> is_nan y" "\<forall>x\<in>set ys. \<not> is_nan x" by simp_all
    from Cons.IH [OF this] have
      n: "\<not> is_nan (foldl (\<lambda>m x. if py_less x m then x else m) y ys)" and
      l: "\<not> py_less y (foldl (\<lambda>m x. if py_less x m then x else m) y ys)"
      by simp_all
    have "\<not> py_less a (foldl (\<lambda>m x. if py_less x m then x else m) y ys)"
    proof
      assume "py_less a (foldl (\<lambda>m x. if py_less x m then x else m) y ys)"
      from py_less_trans_le [OF True _ n] l this True show False
        by (cases a; cases y; cases "foldl (\<lambda>m x. if py_less x m then x else m) y ys") simp_all
    qed
    with n True show ?thesis by simp
  next
    case False
    with Cons show ?thesis by simp
  qed
qed

lemma foldl_max_ge:
  "\<not> is_nan a \<Longrightarrow> \<forall>x\<in>set ys. \<not> is_nan x \<Longrightarrow>
   \<not> is_nan (foldl (\<lambda>m x. if py_less m x then x else m) a ys)
   \<and> \<not> py_less (foldl (\<lambda>m x. if py_less m x then x else m) a ys) a"
proof (induction ys arbitrary: a)
  case Nil
  then show ?case by (cases a) simp_all
next
  case (Cons y ys)
  show ?case
  proof (cases "py_less a y")
    case True
    from Cons.prems have "\<not> is_nan y" "\<forall>x\<in>set ys. \<not> is_nan x" by simp_all
    from Cons.IH [OF this] have
      n: "\<not> is_nan (foldl (\<lambda>m x. if py_less m x then x else m) y ys)" and
      l: "\<not> py_less (foldl (\<lambda>m x. if py_less m x then x else m) y ys) y"
      by simp_all
    have "\<not> py_less (foldl (\<lambda>m x. if py_less m x then x else m) y ys) a"
    proof
      assume "py_less (foldl (\<lambda>m x. if py_less m x then x else m) y ys) a"
      with l True show False
        by (cases a; cases y; cases "foldl (\<lambda>m x. if py_less m x then x else m) y ys") simp_all
    qed
    with n True show ?thesis by simp
  next
    case False
    with Cons show ?thesis by simp
  qed
qed

lemma series_min_le_max: "\<not> py_less (series_max xs) (series_min xs)"
proof (cases "filter (\<lambda>x. \<not> is_nan x) xs")
  case Nil
  then show ?thesis by (simp add: series_min_def series_max_def)
next
  case (Cons y ys)
  have "\<forall>x\<in>set (y # ys). \<not> is_nan x"
    unfolding Cons [symmetric] by simp
  then have y: "\<not> is_nan y" and ys: "\<forall>x\<in>set ys. \<not> is_nan x"
    by simp_all
  let ?mn = "foldl (\<lambda>m x. if py_less x m then x else m) y ys"
  let ?mx = "foldl (\<lambda>m x. if py_less m x then x else m) y ys"
  from foldl_min_le [OF y ys] foldl_max_ge [OF y ys] y
  have "\<not> py_less ?mx ?mn"
    by (cases y; cases ?mn; cases ?mx) simp_all
  then show ?thesis
    by (simp add: series_min_def series_max_def Cons)
qed

lemma foldl_const:
  "\<forall>x\<in>set xs. f a x = a \<Longrightarrow> foldl f a xs = a"
  by (induction xs) simp_all

lemma series_min_const:
  assumes "xs \<noteq> []" "\<forall>x\<in>set xs. x = Fin c"
  shows "series_min xs = Fin c"
proof -
  from assms obtain ys where xs: "xs = Fin c # ys" and ys: "\<forall>x\<in>set ys. x = Fin c"
    by (cases xs) auto
  from ys have "filter (\<lambda>x. \<not> is_nan x) ys = ys"
    by (induction ys) auto
  moreover from ys have "foldl (\<lambda>m x. if py_less x m then x else m) (Fin c) ys = Fin c"
    by (intro foldl_const) auto
  ultimately show ?thesis
    by (simp add: series_min_def xs)
qed

lemma series_max_const:
  assumes "xs \<noteq> []" "\<forall>x\<in>set xs. x = Fin c"
  shows "series_max xs = Fin c"
proof -
  from assms obtain ys where xs: "xs = Fin c # ys" and ys: "\<forall>x\<in>set ys. x = Fin c"
    by (cases xs) auto
  from ys have "filter (\<lambda>x. \<not> is_nan x) ys = ys"
    by (induction ys) auto
  moreover from ys have "foldl (\<lambda>m x. if py_less m x then x else m) (Fin c) ys = Fin c"
    by (intro foldl_const) auto
  ultimately show ?thesis
    by (simp add: series_max_def xs)
qed

lemma kml_color_degenerate: "get_kml_color cmap (Fin c) (Fin c) (Fin c) = to_bytes (cmap NaN)"
  by (simp add: get_kml_color_def py_sub_def)

text \<open>The colour bar on a degenerate range: the bounds move apart, and the constant value
  lies in the middle of the new range (but for a tiny constant, whose new range is
  \<open>(-0.1, 0.1)\<close>).\<close>

lemma nonsingular_const:
  "nonsingular (Fin c) (Fin c) e =
     (if \<bar>c\<bar> < nonsingular_threshold then (Fin (- e), Fin e)
      else (Fin (c - e * \<bar>c\<bar>), Fin (c + e * \<bar>c\<bar>)))"
  using nonsingular_threshold_pos by (auto simp: nonsingular_def Let_def)

lemma nonsingular_regular:
  assumes "a < b" "nonsingular_threshold \<le> max \<bar>a\<bar> \<bar>b\<bar>" "max \<bar>a\<bar> \<bar>b\<bar> * (1 / 10 ^ 15) < b - a"
  shows "nonsingular (Fin a) (Fin b) e = (Fin a, Fin b)"
proof -
  from assms(1) have c1: "\<not> b < a"
    by simp
  from assms(2) have c2: "\<not> max \<bar>a\<bar> \<bar>b\<bar> < nonsingular_threshold"
    by (simp only: not_less)
  from assms(3) have c3: "\<not> b - a \<le> max \<bar>a\<bar> \<bar>b\<bar> * (1 / 10 ^ 15)"
    by (simp only: not_le)
  note c = c1 c2 c3
  show ?thesis
    unfolding nonsingular_def Let_def by (simp only: c if_False prod.case pyfloat.case)
qed

lemma Normalize_widened:
  "Normalize (fst (nonsingular (Fin c) (Fin c) (1 / 10)))
     (snd (nonsingular (Fin c) (Fin c) (1 / 10))) (Fin c) =
   Fin (if \<bar>c\<bar> < nonsingular_threshold then 1 / 2 + 5 * c else 1 / 2)"
proof (cases "\<bar>c\<bar> < nonsingular_threshold")
  case True
  then show ?thesis
    by (simp add: nonsingular_const Normalize_def py_sub_def field_simps)
next
  case False
  with nonsingular_threshold_pos have "c \<noteq> 0"
    by auto
  with False show ?thesis
    by (simp add: nonsingular_const Normalize_def py_sub_def field_simps)
qed

lemma map_const: "\<forall>x\<in>set xs. f x = c \<Longrightarrow> map f xs = replicate (length xs) c"
  by (induction xs) simp_all

lemma kml_constant:
  assumes "\<forall>r\<in>set df. CO2 r = Num (Fin c)"
  shows "\<exists>k. generate_kml_trajectory cmap df = (df, Inr k)
           \<and> map icon_color (points k) = replicate (length df) (to_bytes (cmap NaN))"
proof (cases "df = []")
  case True
  then show ?thesis
    by (simp add: generate_kml_trajectory_def)
next
  case False
  let ?co2 = "map (\<lambda>r. cell_float (CO2 r)) df"
  from assms have notext: "\<not> list_ex (\<lambda>r. is_text (CO2 r)) df"
    by (simp add: list_ex_iff)
  from assms have all: "\<forall>x\<in>set ?co2. x = Fin c"
    by auto
  from False have ne: "?co2 \<noteq> []"
    by simp
  have mn: "series_min ?co2 = Fin c" and mx: "series_max ?co2 = Fin c"
    using series_min_const [OF ne all] series_max_const [OF ne all] by simp_all
  have "map (\<lambda>r. get_kml_color cmap (Fin c) (Fin c) (cell_float (CO2 r))) df
        = replicate (length df) (to_bytes (cmap NaN))"
    using assms by (intro map_const) (simp add: kml_color_degenerate)
  then show ?thesis
    using notext by (simp add: generate_kml_trajectory_def Let_def mn mx comp_def)
qed

lemma fst_draw_plots: "fst (draw_plots parse cmap df) = coerce_table parse df"
  by (simp add: draw_plots_def Let_def coerce_table_def comp_def)

lemma chart_constant:
  assumes "df \<noteq> []" "\<forall>r\<in>set df. CO2 r = Num (Fin c)"
  shows "\<exists>ch. snd (draw_plots parse cmap df) = Inr ch
           \<and> scatter_colors ch =
               replicate (length df)
                 (cmap (Fin (if \<bar>c\<bar> < nonsingular_threshold then 1 / 2 + 5 * c else 1 / 2)))"
proof -
  let ?df3 = "coerce_table parse df"
  let ?co2 = "map (\<lambda>r. cell_float (CO2 r)) ?df3"
  let ?lo = "fst (nonsingular (Fin c) (Fin c) (1 / 10))"
  let ?hi = "snd (nonsingular (Fin c) (Fin c) (1 / 10))"
  let ?t = "Fin (if \<bar>c\<bar> < nonsingular_threshold then 1 / 2 + 5 * c else 1 / 2)"
  have co2: "?co2 = map (\<lambda>r. to_numeric parse (CO2 r)) df"
    by (simp add: coerce_table_def comp_def)
  from assms(2) have all: "\<forall>x\<in>set ?co2. x = Fin c"
    unfolding co2 by (auto simp: to_numeric_def)
  from assms(1) have ne: "?co2 \<noteq> []"
    by (simp add: coerce_table_def)
  have mn: "series_min ?co2 = Fin c" and mx: "series_max ?co2 = Fin c"
    using series_min_const [OF ne all] series_max_const [OF ne all] by simp_all
  have "\<forall>v\<in>set ?co2. cmap (Normalize ?lo ?hi v) = cmap ?t"
    using all Normalize_widened [of c] by simp
  then have "map (\<lambda>v. cmap (Normalize ?lo ?hi v)) ?co2 = replicate (length ?co2) (cmap ?t)"
    by (rule map_const)
  then have cols: "map (\<lambda>v. cmap (Normalize ?lo ?hi v)) ?co2 = replicate (length df) (cmap ?t)"
    by (simp add: coerce_table_def)
  from assms(1) obtain r0 rest where "?df3 = r0 # rest"
    by (cases ?df3) (auto simp: coerce_table_def)
  then show ?thesis
    using cols mn mx
    by (simp add: draw_plots_def Let_def coerce_table_def comp_def)
qed

lemma coerce_table_constant:
  assumes "\<forall>r\<in>set df. CO2 r = Num (Fin c)"
  shows "\<forall>r\<in>set (coerce_table parse df). CO2 r = Num (Fin c)"
  using assms by (auto simp: coerce_table_def to_numeric_def)

lemma length_coerce_table: "length (coerce_table parse df) = length df"
  by (simp add: coerce_table_def)

lemma kml_color_Normalize:
  assumes "\<not> py_eq min_co2 max_co2"
  shows "get_kml_color cmap min_co2 max_co2 v = to_bytes (cmap (Normalize min_co2 max_co2 v))"
  using assms by (cases v) (simp_all add: get_kml_color_def Normalize_def py_sub_def)

lemma coerce_table_no_text: "\<not> list_ex (\<lambda>r. is_text (CO2 r)) (coerce_table parse df)"
  by (simp add: coerce_table_def list_ex_iff)

text \<open>When the colour bar leaves the bounds as they are and they differ, every marker colour
  is the byte form of the chart colour of the same row.\<close>

lemma colors_agree_nondegenerate:
  assumes "df \<noteq> []"
    and "nonsingular (series_min (map (\<lambda>r. cell_float (CO2 r)) (coerce_table parse df)))
           (series_max (map (\<lambda>r. cell_float (CO2 r)) (coerce_table parse df))) (1 / 10) =
         (series_min (map (\<lambda>r. cell_float (CO2 r)) (coerce_table parse df)),
          series_max (map (\<lambda>r. cell_float (CO2 r)) (coerce_table parse df)))"
    and "\<not> py_eq (series_min (map (\<lambda>r. cell_float (CO2 r)) (coerce_table parse df)))
                  (series_max (map (\<lambda>r. cell_float (CO2 r)) (coerce_table parse df)))"
  shows "\<exists>ch k.
      snd (draw_plots parse cmap df) = Inr ch
    \<and> snd (generate_kml_trajectory cmap (fst (draw_plots parse cmap df))) = Inr k
    \<and> map icon_color (points k) = map to_bytes (scatter_colors ch)"
proof -
  let ?df3 = "coerce_table parse df"
  from assms(1) obtain r0 rest where "?df3 = r0 # rest"
    by (cases ?df3) (auto simp: coerce_table_def)
  then show ?thesis
    using coerce_table_no_text [of parse df] kml_color_Normalize [OF assms(3)] assms(2)
    by (simp add: fst_draw_plots generate_kml_trajectory_def Let_def comp_def)
       (simp add: draw_plots_def Let_def coerce_table_def comp_def)
qed

text \<open>
  C2, as the code has it, at a table whose CO2 readings all equal \<open>c\<close>. The chart divides
  by no zero and yields no NaN: the colour bar has widened the bounds \<open>(c, c)\<close> to a
  proper interval, and every point is drawn at the same normalised value, 1/2 (or
  \<open>1/2 + 5 c\<close> for a tiny \<open>c\<close>), not at 0.
\<close>

theorem degenerate_scale:
  assumes "df \<noteq> []" "\<forall>r\<in>set df. CO2 r = Num (Fin c)"
  shows "\<exists>ch lo hi.
      snd (draw_plots parse cmap df) = Inr ch
    \<and> nonsingular (Fin c) (Fin c) (1 / 10) = (Fin lo, Fin hi)
    \<and> lo < hi
    \<and> Normalize (Fin lo) (Fin hi) (Fin c) =
        Fin (if \<bar>c\<bar> < nonsingular_threshold then 1 / 2 + 5 * c else 1 / 2)
    \<and> scatter_colors ch =
        replicate (length df)
          (cmap (Fin (if \<bar>c\<bar> < nonsingular_threshold then 1 / 2 + 5 * c else 1 / 2)))
    \<and> (nonsingular_threshold \<le> \<bar>c\<bar> \<longrightarrow>
         scatter_colors ch = replicate (length df) (cmap (Fin (1 / 2))))"
proof -
  obtain ch where ch: "snd (draw_plots parse cmap df) = Inr ch"
    "scatter_colors ch =
       replicate (length df)
         (cmap (Fin (if \<bar>c\<bar> < nonsingular_threshold then 1 / 2 + 5 * c else 1 / 2)))"
    using chart_constant [OF assms] by blast
  obtain lo hi where b: "nonsingular (Fin c) (Fin c) (1 / 10) = (Fin lo, Fin hi)" and "lo < hi"
  proof (cases "\<bar>c\<bar> < nonsingular_threshold")
    case True
    then have "nonsingular (Fin c) (Fin c) (1 / 10) = (Fin (- (1 / 10)), Fin (1 / 10))"
      by (simp add: nonsingular_const)
    then show ?thesis
      by (rule that) simp
  next
    case False
    with nonsingular_threshold_pos have "c \<noteq> 0"
      by auto
    from False have w: "nonsingular (Fin c) (Fin c) (1 / 10) =
        (Fin (c - 1 / 10 * \<bar>c\<bar>), Fin (c + 1 / 10 * \<bar>c\<bar>))"
      by (simp add: nonsingular_const)
    from \<open>c \<noteq> 0\<close> have "c - 1 / 10 * \<bar>c\<bar> < c + 1 / 10 * \<bar>c\<bar>"
      by simp
    with w show ?thesis
      by (rule that)
  qed
  have "Normalize (Fin lo) (Fin hi) (Fin c) =
        Fin (if \<bar>c\<bar> < nonsingular_threshold then 1 / 2 + 5 * c else 1 / 2)"
    using Normalize_widened [of c] by (simp add: b)
  with ch b \<open>lo < hi\<close> show ?thesis
    by auto
qed

theorem degenerate_scale_witness:
  "constant_co2_table \<noteq> []
   \<and> map CO2 constant_co2_table = [Num (Fin 100), Num (Fin 100), Num (Fin 100)]
   \<and> nonsingular (Fin 100) (Fin 100) (1 / 10) = (Fin 90, Fin 110)
   \<and> Normalize (Fin 90) (Fin 110) (Fin 100) = Fin (1 / 2)
   \<and> (\<exists>ch. snd (draw_plots (\<lambda>s. None) RdYlGn_r constant_co2_table) = Inr ch
         \<and> scatter_colors ch = [yellow_anchor, yellow_anchor, yellow_anchor])"
proof -
  have ne: "constant_co2_table \<noteq> []"
    by (simp add: constant_co2_table_def)
  have all: "\<forall>r\<in>set constant_co2_table. CO2 r = Num (Fin 100)"
    by (simp add: constant_co2_table_def)
  have len: "length constant_co2_table = 3"
    by (simp add: constant_co2_table_def)
  have rep: "replicate 3 x = [x, x, x]" for x :: 'a
    by (simp add: eval_nat_numeral)
  have col: "map CO2 constant_co2_table = [Num (Fin 100), Num (Fin 100), Num (Fin 100)]"
    by (simp add: constant_co2_table_def)
  have thr: "\<not> \<bar>100::real\<bar> < nonsingular_threshold"
    using nonsingular_threshold_small by simp
  have w: "nonsingular (Fin 100) (Fin 100) (1 / 10) = (Fin 90, Fin 110)"
    using thr by (simp add: nonsingular_const)
  have n: "Normalize (Fin 90) (Fin 110) (Fin 100) = Fin (1 / 2)"
    by (simp add: Normalize_def py_sub_def)
  from degenerate_scale [OF ne all, of "\<lambda>s. None" RdYlGn_r] thr ne col w n show ?thesis
    unfolding len rep by (auto simp: ramp_anchors simp del: RdYlGn_r.simps)
qed

text \<open>
  C2 as stated fails at the table whose CO2 readings are all 100. The chart draws every
  point with the ramp at 1/2, which is not its colour at 0. The document divides 0 by 0:
  the normalised value is NaN and every marker gets the colour for NaN, (0, 0, 0, 0).
\<close>

theorem degenerate_scale_counterexample:
  "map_sum (\<lambda>e. e) scatter_colors (snd (draw_plots (\<lambda>s. None) RdYlGn_r constant_co2_table)) =
     Inr [RdYlGn_r (Fin (1 / 2)), RdYlGn_r (Fin (1 / 2)), RdYlGn_r (Fin (1 / 2))]
   \<and> RdYlGn_r (Fin (1 / 2)) \<noteq> RdYlGn_r (Fin 0)
   \<and> py_div (py_sub (Fin 100) (Fin 100)) (py_sub (Fin 100) (Fin 100)) = NaN
   \<and> map_sum (\<lambda>e. e) (\<lambda>k. map icon_color (points k))
       (snd (generate_kml_trajectory RdYlGn_r
               (fst (draw_plots (\<lambda>s. None) RdYlGn_r constant_co2_table)))) =
     Inr [(0, 0, 0, 0), (0, 0, 0, 0), (0, 0, 0, 0)]
   \<and> to_bytes (RdYlGn_r (Fin 0)) = (0, 104, 55, 255)"
proof -
  have ne: "constant_co2_table \<noteq> []"
    by (simp add: constant_co2_table_def)
  have all: "\<forall>r\<in>set constant_co2_table. CO2 r = Num (Fin 100)"
    by (simp add: constant_co2_table_def)
  have len: "length constant_co2_table = 3"
    by (simp add: constant_co2_table_def)
  have rep: "replicate 3 x = [x, x, x]" for x :: 'a
    by (simp add: eval_nat_numeral)
  have thr: "\<not> \<bar>100::real\<bar> < nonsingular_threshold"
    using nonsingular_threshold_small by simp
  obtain ch where ch: "snd (draw_plots (\<lambda>s. None) RdYlGn_r constant_co2_table) = Inr ch"
    "scatter_colors ch = replicate 3 (RdYlGn_r (Fin (1 / 2)))"
    using chart_constant [OF ne all, of "\<lambda>s. None" RdYlGn_r] thr unfolding len by auto
  obtain k where k:
    "generate_kml_trajectory RdYlGn_r (coerce_table (\<lambda>s. None) constant_co2_table) =
       (coerce_table (\<lambda>s. None) constant_co2_table, Inr k)"
    "map icon_color (points k) = replicate 3 (to_bytes (RdYlGn_r NaN))"
    using kml_constant [OF coerce_table_constant [OF all], of RdYlGn_r "\<lambda>s. None"]
    unfolding length_coerce_table len by blast
  have "RdYlGn_r (Fin (1 / 2)) \<noteq> RdYlGn_r (Fin 0)"
    by (simp add: lerp_def green_anchor_def yellow_anchor_def)
  moreover have "py_div (py_sub (Fin 100) (Fin 100)) (py_sub (Fin 100) (Fin 100)) = NaN"
    by (simp add: py_sub_def)
  moreover have "to_bytes (RdYlGn_r (Fin 0)) = (0, 104, 55, 255)"
    by (simp add: anchor_bytes)
  moreover have "to_bytes (RdYlGn_r NaN) = (0, 0, 0, 0)"
    by (simp add: anchor_bytes)
  ultimately show ?thesis
    using ch k by (simp add: fst_draw_plots rep)
qed

lemma assemble_CO2:
  "length las = length rs \<Longrightarrow> length los = length rs \<Longrightarrow> length ens = length rs \<Longrightarrow>
   length ts = length rs \<Longrightarrow> length ss = length rs \<Longrightarrow>
   map CO2 (assemble rs las los ens z ts ss) = map CO2 rs"
proof (induction rs arbitrary: las los ens ts ss)
  case Nil
  then show ?case by simp
next
  case (Cons r rs)
  then obtain la las' lo los' en ens' t ts' s ss' where
    "las = la # las'" "los = lo # los'" "ens = en # ens'" "ts = t # ts'" "ss = s # ss'"
    by (metis length_Suc_conv)
  with Cons show ?case by simp
qed

lemma load_keeps_CO2:
  assumes "load_and_prepare_data rnd utm_transformer df = Inr rows"
  shows "map CO2 rows = map CO2 df"
proof -
  from assms obtain lat_dd lon_dd zone transform hhmmss start_time rel where
    lat: "map_result convert_ddmmss_to_dd (map Latitude df) = Inr lat_dd" and
    lon: "map_result convert_ddmmss_to_dd (map Longitude df) = Inr lon_dd" and
    fmt: "map_result format_time_string (map Time df) = Inr hhmmss" and
    rel: "map_result (\<lambda>r. calculate_relative_seconds r start_time) df = Inr rel" and
    rows: "rows = assemble df lat_dd lon_dd
             (map (\<lambda>(lo, la). transform lo la) (zip lon_dd lat_dd)) zone hhmmss rel"
    unfolding load_and_prepare_data_def
    by (auto simp: Let_def simp del: map_result.simps
        split: sum.splits option.splits list.splits)
  from map_result_length [OF lat] map_result_length [OF lon] map_result_length [OF fmt]
    map_result_length [OF rel]
  show ?thesis
    unfolding rows by (intro assemble_CO2) simp_all
qed

lemma main_constant_co2:
  assumes "load_and_prepare_data rnd utm_transformer df = Inr rows"
    and "\<forall>r\<in>set df. CO2 r = Num (Fin c)"
  shows "\<exists>ch k. main rnd utm_transformer parse cmap df = Inr (ch, k)
          \<and> scatter_colors ch =
              replicate (length df)
                (cmap (Fin (if \<bar>c\<bar> < nonsingular_threshold then 1 / 2 + 5 * c else 1 / 2)))
          \<and> map icon_color (points k) = replicate (length df) (to_bytes (cmap NaN))"
proof -
  have co2: "map CO2 rows = map CO2 df"
    using assms(1) by (rule load_keeps_CO2)
  then have len: "length rows = length df"
    by (rule map_eq_imp_length_eq)
  have "set (map CO2 rows) = set (map CO2 df)"
    by (simp only: co2)
  with assms(2) have all: "\<forall>r\<in>set rows. CO2 r = Num (Fin c)"
    by auto
  have ne: "rows \<noteq> []"
    using first_row_relative_seconds [OF assms(1)] by simp
  obtain ch where ch: "snd (draw_plots parse cmap rows) = Inr ch"
    "scatter_colors ch =
       replicate (length rows)
         (cmap (Fin (if \<bar>c\<bar> < nonsingular_threshold then 1 / 2 + 5 * c else 1 / 2)))"
    using chart_constant [OF ne all] by blast
  obtain k where k:
    "generate_kml_trajectory cmap (coerce_table parse rows) = (coerce_table parse rows, Inr k)"
    "map icon_color (points k) =
       replicate (length (coerce_table parse rows)) (to_bytes (cmap NaN))"
    using kml_constant [OF coerce_table_constant [OF all]] by blast
  have dp: "draw_plots parse cmap rows = (coerce_table parse rows, Inr ch)"
    using ch(1) fst_draw_plots [of parse cmap rows] by (cases "draw_plots parse cmap rows") simp
  show ?thesis
    using ch(2) k(2) by (simp add: main_def assms(1) dp k(1) len length_coerce_table)
qed

lemma load_constant_co2_log:
  "\<exists>rows. load_and_prepare_data (\<lambda>x. x) (\<lambda>code. Some (\<lambda>lo la. (lo, la))) constant_co2_log =
     Inr rows"
  by (simp add: load_and_prepare_data_def constant_co2_log_def spec_example_rows_def convert_Fin
      zone_example exact_mono str_int_33 format_time_example calculate_relative_seconds_def
      strptime_example total_seconds_between_def seconds_of_day_def)

text \<open>
  C1, at a log that loads and whose CO2 readings all equal \<open>c\<close> (not tiny), with the ramp:
  the main program draws every chart point with the ramp at 1/2, the yellow anchor
  (bytes 255, 255, 191, 255), and gives every marker the colour for NaN, transparent
  black (0, 0, 0, 0). The two outputs colour the same CO2 value differently. (When the
  colour bar leaves the bounds alone and minimum and maximum differ, the marker colours
  are the bytes of the chart colours: \<open>colors_agree_nondegenerate\<close>.)
\<close>

theorem constant_co2_colors_differ:
  assumes "load_and_prepare_data rnd utm_transformer df = Inr rows"
    and "\<forall>r\<in>set df. CO2 r = Num (Fin c)"
    and "nonsingular_threshold \<le> \<bar>c\<bar>"
  shows "\<exists>ch k.
      main rnd utm_transformer parse RdYlGn_r df = Inr (ch, k)
    \<and> map to_bytes (scatter_colors ch) = replicate (length df) (255, 255, 191, 255)
    \<and> map icon_color (points k) = replicate (length df) (0, 0, 0, 0)
    \<and> map icon_color (points k) \<noteq> map to_bytes (scatter_colors ch)"
proof -
  obtain ch k where m: "main rnd utm_transformer parse RdYlGn_r df = Inr (ch, k)"
    and c: "scatter_colors ch =
      replicate (length df)
        (RdYlGn_r (Fin (if \<bar>c\<bar> < nonsingular_threshold then 1 / 2 + 5 * c else 1 / 2)))"
    and d: "map icon_color (points k) = replicate (length df) (to_bytes (RdYlGn_r NaN))"
    using main_constant_co2 [OF assms(1,2)] by blast
  have "map CO2 rows = map CO2 df"
    using assms(1) by (rule load_keeps_CO2)
  then have "length rows = length df"
    by (rule map_eq_imp_length_eq)
  with first_row_relative_seconds [OF assms(1)] have ne: "df \<noteq> []"
    by auto
  from assms(3) have "scatter_colors ch = replicate (length df) yellow_anchor"
    unfolding c by (simp add: ramp_anchors del: RdYlGn_r.simps)
  then have c': "map to_bytes (scatter_colors ch) = replicate (length df) (255, 255, 191, 255)"
    by (simp add: anchor_bytes)
  have d': "map icon_color (points k) = replicate (length df) (0, 0, 0, 0)"
    by (simp add: d anchor_bytes)
  from ne have "replicate (length df) ((0, 0, 0, 0)::kml_color) \<noteq>
                replicate (length df) (255, 255, 191, 255)"
    by (cases df) simp_all
  with m c' d' show ?thesis
    by simp
qed

theorem constant_co2_colors_differ_witness:
  "(\<exists>rows. load_and_prepare_data (\<lambda>x. x) (\<lambda>code. Some (\<lambda>lo la. (lo, la))) constant_co2_log =
      Inr rows)
   \<and> map CO2 constant_co2_log = [Num (Fin 100), Num (Fin 100), Num (Fin 100)]
   \<and> nonsingular_threshold \<le> \<bar>100\<bar>
   \<and> (\<exists>ch k.
        main (\<lambda>x. x) (\<lambda>code. Some (\<lambda>lo la. (lo, la))) (\<lambda>s. None) RdYlGn_r constant_co2_log =
          Inr (ch, k)
      \<and> map to_bytes (scatter_colors ch) =
          [(255, 255, 191, 255), (255, 255, 191, 255), (255, 255, 191, 255)]
      \<and> map icon_color (points k) = [(0, 0, 0, 0), (0, 0, 0, 0), (0, 0, 0, 0)])"
proof -
  obtain rows where L:
    "load_and_prepare_data (\<lambda>x. x) (\<lambda>code. Some (\<lambda>lo la. (lo, la))) constant_co2_log = Inr rows"
    using load_constant_co2_log by blast
  have all: "\<forall>r\<in>set constant_co2_log. CO2 r = Num (Fin 100)"
    by (simp add: constant_co2_log_def)
  have col: "map CO2 constant_co2_log = [Num (Fin 100), Num (Fin 100), Num (Fin 100)]"
    by (simp add: constant_co2_log_def spec_example_rows_def)
  have len: "length constant_co2_log = 3"
    by (simp add: constant_co2_log_def spec_example_rows_def)
  have rep: "replicate 3 x = [x, x, x]" for x :: 'a
    by (simp add: eval_nat_numeral)
  have thr: "nonsingular_threshold \<le> \<bar>100\<bar>"
    using nonsingular_threshold_small by simp
  from constant_co2_colors_differ [OF L all thr, of "\<lambda>s. None"] L col thr show ?thesis
    unfolding len rep by auto
qed

subsection \<open>Failures while loading\<close>

lemma map_result_first_failure:
  "map_result f xs = Inl e \<Longrightarrow>
     \<exists>i<length xs. f (xs ! i) = Inl e \<and> (\<forall>j<i. \<not> isl (f (xs ! j)))"
proof (induction xs)
  case Nil
  then show ?case by simp
next
  case (Cons x xs)
  show ?case
  proof (cases "f x")
    case (Inl e')
    with Cons.prems have "f ((x # xs) ! 0) = Inl e" by simp
    then show ?thesis by (intro exI [of _ 0]) simp
  next
    case (Inr y)
    with Cons.prems have "map_result f xs = Inl e"
      by (simp split: sum.splits)
    from Cons.IH [OF this] obtain i where i: "i < length xs" "f (xs ! i) = Inl e"
      "\<forall>j<i. \<not> isl (f (xs ! j))" by blast
    have "\<forall>j<Suc i. \<not> isl (f ((x # xs) ! j))"
    proof (intro allI impI)
      fix j assume "j < Suc i"
      then show "\<not> isl (f ((x # xs) ! j))"
        using i(3) Inr by (cases j) simp_all
    qed
    with i(1,2) show ?thesis
      by (intro exI [of _ "Suc i"]) simp
  qed
qed

lemma column_first_failure:
  assumes "map_result f (map g df) = Inl e"
  shows "\<exists>i<length df. f (g (df ! i)) = Inl e \<and> (\<forall>j<i. \<not> isl (f (g (df ! j))))"
  using map_result_first_failure [of "\<lambda>r. f (g r)" df e] assms
  by (simp add: map_result_map)

lemma map_result_fails:
  "x \<in> set xs \<Longrightarrow> isl (f x) \<Longrightarrow> isl (map_result f xs)"
  by (induction xs) (auto split: sum.splits)

lemma relative_seconds_fail_any_start:
  "isl (calculate_relative_seconds r st) = isl (calculate_relative_seconds r st')"
  by (simp add: calculate_relative_seconds_def split: sum.splits)

text \<open>The exception of the elapsed seconds of a row does not depend on the reference
  time.\<close>

lemma relative_seconds_error_any_start:
  "(calculate_relative_seconds r st = Inl e) = (calculate_relative_seconds r st' = Inl e)"
  by (simp add: calculate_relative_seconds_def split: sum.splits)

lemma map_result_same_errors:
  assumes "\<And>x e. x \<in> set xs \<Longrightarrow> (f x = Inl e) = (g x = Inl e)"
  shows "(map_result f xs = Inl e) = (map_result g xs = Inl e)"
  using assms
proof (induction xs)
  case Nil
  then show ?case by simp
next
  case (Cons x xs)
  have IH: "(map_result f xs = Inl e) = (map_result g xs = Inl e)"
    by (rule Cons.IH) (simp add: Cons.prems)
  have x: "(f x = Inl e') = (g x = Inl e')" for e'
    by (rule Cons.prems) simp
  show ?case
  proof (cases "f x")
    case (Inl e')
    with x [of e'] show ?thesis
      by simp
  next
    case (Inr y)
    with x obtain y' where "g x = Inr y'"
      by (cases "g x") auto
    with Inr IH show ?thesis
      by (cases "map_result f xs"; cases "map_result g xs") auto
  qed
qed

lemma load_Inr_substeps:
  assumes "load_and_prepare_data rnd utm_transformer df = Inr rows"
  shows "\<not> isl (map_result convert_ddmmss_to_dd (map Latitude df))"
    and "\<not> isl (map_result convert_ddmmss_to_dd (map Longitude df))"
    and "\<not> isl (map_result format_time_string (map Time df))"
    and "\<exists>st. \<not> isl (map_result (\<lambda>r. calculate_relative_seconds r st) df)"
proof -
  from assms obtain lat_dd lon_dd hhmmss start_time rel where
    lat: "map_result convert_ddmmss_to_dd (map Latitude df) = Inr lat_dd" and
    lon: "map_result convert_ddmmss_to_dd (map Longitude df) = Inr lon_dd" and
    fmt: "map_result format_time_string (map Time df) = Inr hhmmss" and
    rel: "map_result (\<lambda>r. calculate_relative_seconds r start_time) df = Inr rel"
    unfolding load_and_prepare_data_def
    by (auto simp: Let_def simp del: map_result.simps
        split: sum.splits option.splits list.splits)
  show "\<not> isl (map_result convert_ddmmss_to_dd (map Latitude df))"
    by (simp add: lat)
  show "\<not> isl (map_result convert_ddmmss_to_dd (map Longitude df))"
    by (simp add: lon)
  show "\<not> isl (map_result format_time_string (map Time df))"
    by (simp add: fmt)
  show "\<exists>st. \<not> isl (map_result (\<lambda>r. calculate_relative_seconds r st) df)"
    by (rule exI [of _ start_time]) (simp add: rel)
qed

lemma load_fails_on_row_failure:
  assumes "r \<in> set df"
    and "isl (convert_ddmmss_to_dd (Latitude r)) \<or> isl (convert_ddmmss_to_dd (Longitude r))
       \<or> isl (format_time_string (Time r)) \<or> isl (calculate_relative_seconds r st)"
  shows "isl (load_and_prepare_data rnd utm_transformer df)"
proof (rule ccontr)
  assume "\<not> isl (load_and_prepare_data rnd utm_transformer df)"
  then obtain rows where L: "load_and_prepare_data rnd utm_transformer df = Inr rows"
    by (cases "load_and_prepare_data rnd utm_transformer df") auto
  from load_Inr_substeps(4) [OF L] obtain st' where
    st': "\<not> isl (map_result (\<lambda>r. calculate_relative_seconds r st') df)" by blast
  from assms(2) consider
      "isl (convert_ddmmss_to_dd (Latitude r))" | "isl (convert_ddmmss_to_dd (Longitude r))"
    | "isl (format_time_string (Time r))" | "isl (calculate_relative_seconds r st')"
    using relative_seconds_fail_any_start [of r st st'] by blast
  then show False
  proof cases
    case 1
    with assms(1) have "isl (map_result convert_ddmmss_to_dd (map Latitude df))"
      by (intro map_result_fails [of "Latitude r"]) auto
    with load_Inr_substeps(1) [OF L] show False by simp
  next
    case 2
    with assms(1) have "isl (map_result convert_ddmmss_to_dd (map Longitude df))"
      by (intro map_result_fails [of "Longitude r"]) auto
    with load_Inr_substeps(2) [OF L] show False by simp
  next
    case 3
    with assms(1) have "isl (map_result format_time_string (map Time df))"
      by (intro map_result_fails [of "Time r"]) auto
    with load_Inr_substeps(3) [OF L] show False by simp
  next
    case 4
    with assms(1) have "isl (map_result (\<lambda>r. calculate_relative_seconds r st') df)"
      by (intro map_result_fails [of r]) auto
    with st' show False by simp
  qed
qed

text \<open>The steps of loading, in the order of the source: what loading returns when a step
  fails and the steps before it have succeeded.\<close>

lemma load_latitude_error:
  "map_result convert_ddmmss_to_dd (map Latitude df) = Inl e \<Longrightarrow>
   load_and_prepare_data rnd utm_transformer df = Inl e"
  by (simp add: load_and_prepare_data_def)

lemma load_longitude_error:
  "map_result convert_ddmmss_to_dd (map Latitude df) = Inr las \<Longrightarrow>
   map_result convert_ddmmss_to_dd (map Longitude df) = Inl e \<Longrightarrow>
   load_and_prepare_data rnd utm_transformer df = Inl e"
  by (simp add: load_and_prepare_data_def)

lemma load_zone_error:
  "map_result convert_ddmmss_to_dd (map Latitude df) = Inr las \<Longrightarrow>
   map_result convert_ddmmss_to_dd (map Longitude df) = Inr los \<Longrightarrow>
   utm_zone rnd (series_mean los) = Inl e \<Longrightarrow>
   load_and_prepare_data rnd utm_transformer df = Inl e"
  by (simp add: load_and_prepare_data_def)

lemma load_crs_error:
  "map_result convert_ddmmss_to_dd (map Latitude df) = Inr las \<Longrightarrow>
   map_result convert_ddmmss_to_dd (map Longitude df) = Inr los \<Longrightarrow>
   utm_zone rnd (series_mean los) = Inr z \<Longrightarrow>
   utm_transformer (''326'' @ str_int z) = None \<Longrightarrow>
   load_and_prepare_data rnd utm_transformer df = Inl (CRSError (''326'' @ str_int z))"
  by (simp add: load_and_prepare_data_def)

lemma load_time_string_error:
  "map_result convert_ddmmss_to_dd (map Latitude df) = Inr las \<Longrightarrow>
   map_result convert_ddmmss_to_dd (map Longitude df) = Inr los \<Longrightarrow>
   utm_zone rnd (series_mean los) = Inr z \<Longrightarrow>
   utm_transformer (''326'' @ str_int z) = Some transform \<Longrightarrow>
   map_result format_time_string (map Time df) = Inl e \<Longrightarrow>
   load_and_prepare_data rnd utm_transformer df = Inl e"
  by (simp add: load_and_prepare_data_def)

lemma load_relative_seconds_error:
  assumes lat: "map_result convert_ddmmss_to_dd (map Latitude df) = Inr las"
    and lon: "map_result convert_ddmmss_to_dd (map Longitude df) = Inr los"
    and zone: "utm_zone rnd (series_mean los) = Inr z"
    and crs: "utm_transformer (''326'' @ str_int z) = Some transform"
    and fmt: "map_result format_time_string (map Time df) = Inr ts"
    and rel: "map_result (\<lambda>r. calculate_relative_seconds r st) df = Inl e"
  shows "load_and_prepare_data rnd utm_transformer df = Inl e"
proof -
  from rel obtain r0 rest where df: "df = r0 # rest"
    by (cases df) simp_all
  from fmt obtain i0 where i0: "py_int (Time r0) = Inr i0"
    unfolding df by (auto simp: format_time_string_def split: sum.splits)
  have L: "load_and_prepare_data rnd utm_transformer df =
      (case strptime_HMS (zfill 6 (str_int i0)) of
         Inl e \<Rightarrow> Inl e
       | Inr start_time \<Rightarrow>
           (case map_result (\<lambda>r. calculate_relative_seconds r start_time) df of
              Inl e \<Rightarrow> Inl e
            | Inr rel \<Rightarrow>
                Inr (assemble df las los (map (\<lambda>(lo, la). transform lo la) (zip los las)) z ts
                       rel)))"
    using lat lon zone crs fmt i0 unfolding load_and_prepare_data_def df
    by (simp del: map_result.simps)
  show ?thesis
  proof (cases "strptime_HMS (zfill 6 (str_int i0))")
    case (Inl e0)
    then have "calculate_relative_seconds r0 st = Inl e0"
      by (simp add: calculate_relative_seconds_def i0)
    with rel have "e = e0"
      by (simp add: df)
    with L Inl show ?thesis
      by simp
  next
    case (Inr start_time)
    have "(map_result (\<lambda>r. calculate_relative_seconds r start_time) df = Inl e) =
          (map_result (\<lambda>r. calculate_relative_seconds r st) df = Inl e)"
      by (rule map_result_same_errors) (rule relative_seconds_error_any_start)
    with rel have "map_result (\<lambda>r. calculate_relative_seconds r start_time) df = Inl e"
      by simp
    with L Inr show ?thesis
      by simp
  qed
qed

lemma example_row_ok:
  "convert_ddmmss_to_dd (Latitude example_row) = Inr (Fin (91 / 2))"
  "convert_ddmmss_to_dd (Latitude missing_latitude_row) =
     Inl (ValueError ''cannot convert float NaN to integer'')"
  by (simp_all add: example_row_def missing_latitude_row_def convert_Fin convert_not_finite)

lemma missing_time_row_steps:
  "map_result convert_ddmmss_to_dd (map Latitude [missing_time_row]) = Inr [Fin (91 / 2)]"
  "map_result convert_ddmmss_to_dd (map Longitude [missing_time_row]) = Inr [Fin 12]"
  "utm_zone (\<lambda>x. x) (series_mean [Fin 12]) = Inr 33"
  "map_result format_time_string (map Time [missing_time_row]) =
     Inl (ValueError ''cannot convert float NaN to integer'')"
  by (simp_all add: missing_time_row_def example_row_def convert_Fin series_mean_def
      utm_zone_exact format_time_string_def)

text \<open>
  C6, as the code has it. Loading runs its steps on whole columns, in this order: all
  latitudes, all longitudes, the zone selection, the CRS lookup, all time strings, the
  reference time of the first row, all elapsed seconds. When a conversion of some row
  fails (its latitude, longitude, time string or elapsed seconds), loading returns an
  exception and no rows. The exception is that of the first step that fails, exactly as
  the failing call raised it, and within a column it is that of the first row that
  fails: the failing latitude when a latitude fails; the failing longitude when all
  latitudes convert; the exception of the zone selection or of the CRS lookup when the
  coordinates convert and that step fails, whatever the times are; the failing time
  string when the steps before succeed; the failing elapsed seconds (the reference time
  is that of the first row) when the steps before succeed.
\<close>

theorem row_failure_aborts_loading:
  assumes "r \<in> set df"
    and "isl (convert_ddmmss_to_dd (Latitude r)) \<or> isl (convert_ddmmss_to_dd (Longitude r))
       \<or> isl (format_time_string (Time r)) \<or> isl (calculate_relative_seconds r st)"
  shows "isl (load_and_prepare_data rnd utm_transformer df)
       \<and> (\<forall>e. map_result convert_ddmmss_to_dd (map Latitude df) = Inl e \<longrightarrow>
              load_and_prepare_data rnd utm_transformer df = Inl e
            \<and> (\<exists>i<length df. convert_ddmmss_to_dd (Latitude (df ! i)) = Inl e
                 \<and> (\<forall>j<i. \<not> isl (convert_ddmmss_to_dd (Latitude (df ! j))))))
       \<and> (\<forall>las e. map_result convert_ddmmss_to_dd (map Latitude df) = Inr las
              \<and> map_result convert_ddmmss_to_dd (map Longitude df) = Inl e \<longrightarrow>
              load_and_prepare_data rnd utm_transformer df = Inl e
            \<and> (\<exists>i<length df. convert_ddmmss_to_dd (Longitude (df ! i)) = Inl e
                 \<and> (\<forall>j<i. \<not> isl (convert_ddmmss_to_dd (Longitude (df ! j))))))
       \<and> (\<forall>las los e. map_result convert_ddmmss_to_dd (map Latitude df) = Inr las
              \<and> map_result convert_ddmmss_to_dd (map Longitude df) = Inr los
              \<and> utm_zone rnd (series_mean los) = Inl e \<longrightarrow>
              load_and_prepare_data rnd utm_transformer df = Inl e)
       \<and> (\<forall>las los z. map_result convert_ddmmss_to_dd (map Latitude df) = Inr las
              \<and> map_result convert_ddmmss_to_dd (map Longitude df) = Inr los
              \<and> utm_zone rnd (series_mean los) = Inr z
              \<and> utm_transformer (''326'' @ str_int z) = None \<longrightarrow>
              load_and_prepare_data rnd utm_transformer df =
                Inl (CRSError (''326'' @ str_int z)))
       \<and> (\<forall>las los z transform e. map_result convert_ddmmss_to_dd (map Latitude df) = Inr las
              \<and> map_result convert_ddmmss_to_dd (map Longitude df) = Inr los
              \<and> utm_zone rnd (series_mean los) = Inr z
              \<and> utm_transformer (''326'' @ str_int z) = Some transform
              \<and> map_result format_time_string (map Time df) = Inl e \<longrightarrow>
              load_and_prepare_data rnd utm_transformer df = Inl e
            \<and> (\<exists>i<length df. format_time_string (Time (df ! i)) = Inl e
                 \<and> (\<forall>j<i. \<not> isl (format_time_string (Time (df ! j))))))
       \<and> (\<forall>las los z transform ts st' e.
              map_result convert_ddmmss_to_dd (map Latitude df) = Inr las
              \<and> map_result convert_ddmmss_to_dd (map Longitude df) = Inr los
              \<and> utm_zone rnd (series_mean los) = Inr z
              \<and> utm_transformer (''326'' @ str_int z) = Some transform
              \<and> map_result format_time_string (map Time df) = Inr ts
              \<and> map_result (\<lambda>r. calculate_relative_seconds r st') df = Inl e \<longrightarrow>
              load_and_prepare_data rnd utm_transformer df = Inl e
            \<and> (\<exists>i<length df. calculate_relative_seconds (df ! i) st' = Inl e
                 \<and> (\<forall>j<i. \<not> isl (calculate_relative_seconds (df ! j) st'))))"
proof (intro conjI allI impI; (elim conjE)?)
  show "isl (load_and_prepare_data rnd utm_transformer df)"
    using assms by (rule load_fails_on_row_failure)
next
  fix e
  assume "map_result convert_ddmmss_to_dd (map Latitude df) = Inl e"
  then show "load_and_prepare_data rnd utm_transformer df = Inl e"
    by (rule load_latitude_error)
next
  fix e
  assume "map_result convert_ddmmss_to_dd (map Latitude df) = Inl e"
  then show "\<exists>i<length df. convert_ddmmss_to_dd (Latitude (df ! i)) = Inl e
      \<and> (\<forall>j<i. \<not> isl (convert_ddmmss_to_dd (Latitude (df ! j))))"
    by (rule column_first_failure)
next
  fix las e
  assume "map_result convert_ddmmss_to_dd (map Latitude df) = Inr las"
    "map_result convert_ddmmss_to_dd (map Longitude df) = Inl e"
  then show "load_and_prepare_data rnd utm_transformer df = Inl e"
    by (rule load_longitude_error)
next
  fix e
  assume "map_result convert_ddmmss_to_dd (map Longitude df) = Inl e"
  then show "\<exists>i<length df. convert_ddmmss_to_dd (Longitude (df ! i)) = Inl e
      \<and> (\<forall>j<i. \<not> isl (convert_ddmmss_to_dd (Longitude (df ! j))))"
    by (rule column_first_failure)
next
  fix las los e
  assume "map_result convert_ddmmss_to_dd (map Latitude df) = Inr las"
    "map_result convert_ddmmss_to_dd (map Longitude df) = Inr los"
    "utm_zone rnd (series_mean los) = Inl e"
  then show "load_and_prepare_data rnd utm_transformer df = Inl e"
    by (rule load_zone_error)
next
  fix las los z
  assume "map_result convert_ddmmss_to_dd (map Latitude df) = Inr las"
    "map_result convert_ddmmss_to_dd (map Longitude df) = Inr los"
    "utm_zone rnd (series_mean los) = Inr z"
    "utm_transformer (''326'' @ str_int z) = None"
  then show "load_and_prepare_data rnd utm_transformer df = Inl (CRSError (''326'' @ str_int z))"
    by (rule load_crs_error)
next
  fix las los z transform e
  assume "map_result convert_ddmmss_to_dd (map Latitude df) = Inr las"
    "map_result convert_ddmmss_to_dd (map Longitude df) = Inr los"
    "utm_zone rnd (series_mean los) = Inr z"
    "utm_transformer (''326'' @ str_int z) = Some transform"
    "map_result format_time_string (map Time df) = Inl e"
  then show "load_and_prepare_data rnd utm_transformer df = Inl e"
    by (rule load_time_string_error)
next
  fix e
  assume "map_result format_time_string (map Time df) = Inl e"
  then show "\<exists>i<length df. format_time_string (Time (df ! i)) = Inl e
      \<and> (\<forall>j<i. \<not> isl (format_time_string (Time (df ! j))))"
    by (rule column_first_failure)
next
  fix las los z transform ts st' e
  assume "map_result convert_ddmmss_to_dd (map Latitude df) = Inr las"
    "map_result convert_ddmmss_to_dd (map Longitude df) = Inr los"
    "utm_zone rnd (series_mean los) = Inr z"
    "utm_transformer (''326'' @ str_int z) = Some transform"
    "map_result format_time_string (map Time df) = Inr ts"
    "map_result (\<lambda>r. calculate_relative_seconds r st') df = Inl e"
  then show "load_and_prepare_data rnd utm_transformer df = Inl e"
    by (rule load_relative_seconds_error)
next
  fix st' e
  assume "map_result (\<lambda>r. calculate_relative_seconds r st') df = Inl e"
  then show "\<exists>i<length df. calculate_relative_seconds (df ! i) st' = Inl e
      \<and> (\<forall>j<i. \<not> isl (calculate_relative_seconds (df ! j) st'))"
    by (rule map_result_first_failure)
qed

theorem row_failure_aborts_loading_witness:
  "missing_latitude_row \<in> set [example_row, missing_latitude_row]
   \<and> isl (convert_ddmmss_to_dd (Latitude missing_latitude_row))
   \<and> load_and_prepare_data (\<lambda>x. x) (\<lambda>code. None) [example_row, missing_latitude_row] =
       Inl (ValueError ''cannot convert float NaN to integer'')
   \<and> isl (format_time_string (Time missing_time_row))
   \<and> load_and_prepare_data (\<lambda>x. x) (\<lambda>code. None) [missing_time_row] =
       Inl (CRSError ''32633'')
   \<and> load_and_prepare_data (\<lambda>x. x) (\<lambda>code. Some (\<lambda>lo la. (lo, la))) [missing_time_row] =
       Inl (ValueError ''cannot convert float NaN to integer'')"
proof -
  let ?df = "[example_row, missing_latitude_row]"
  let ?st = "\<lparr>hour = 0, minute = 0, second = 0\<rparr>"
  have m: "missing_latitude_row \<in> set ?df"
    by simp
  have f: "isl (convert_ddmmss_to_dd (Latitude missing_latitude_row))"
    by (simp add: example_row_ok)
  then have f': "isl (convert_ddmmss_to_dd (Latitude missing_latitude_row))
       \<or> isl (convert_ddmmss_to_dd (Longitude missing_latitude_row))
       \<or> isl (format_time_string (Time missing_latitude_row))
       \<or> isl (calculate_relative_seconds missing_latitude_row ?st)"
    by simp
  have e: "map_result convert_ddmmss_to_dd (map Latitude ?df) =
           Inl (ValueError ''cannot convert float NaN to integer'')"
    by (simp add: example_row_ok)
  have m2: "missing_time_row \<in> set [missing_time_row]"
    by simp
  have g: "isl (format_time_string (Time missing_time_row))"
    by (simp add: missing_time_row_def format_time_string_def)
  then have g': "isl (convert_ddmmss_to_dd (Latitude missing_time_row))
       \<or> isl (convert_ddmmss_to_dd (Longitude missing_time_row))
       \<or> isl (format_time_string (Time missing_time_row))
       \<or> isl (calculate_relative_seconds missing_time_row ?st)"
    by simp
  note A = row_failure_aborts_loading [OF m f', of "\<lambda>x. x" "\<lambda>code. None"]
  note B = row_failure_aborts_loading [OF m2 g', of "\<lambda>x. x" "\<lambda>code. None"]
  note C = row_failure_aborts_loading [OF m2 g', of "\<lambda>x. x" "\<lambda>code. Some (\<lambda>lo la. (lo, la))"]
  from A [THEN conjunct2, THEN conjunct1, rule_format, OF e]
  have 1: "load_and_prepare_data (\<lambda>x. x) (\<lambda>code. None) ?df =
      Inl (ValueError ''cannot convert float NaN to integer'')"
    by (rule conjunct1)
  from B [THEN conjunct2, THEN conjunct2, THEN conjunct2, THEN conjunct2, THEN conjunct1,
      rule_format, of "[Fin (91 / 2)]" "[Fin 12]" 33]
    missing_time_row_steps(1,2,3)
  have "load_and_prepare_data (\<lambda>x. x) (\<lambda>code. None) [missing_time_row] =
      Inl (CRSError (''326'' @ str_int 33))"
    by (simp del: map_result.simps)
  then have 2: "load_and_prepare_data (\<lambda>x. x) (\<lambda>code. None) [missing_time_row] =
      Inl (CRSError ''32633'')"
    by (simp add: str_int_33)
  from C [THEN conjunct2, THEN conjunct2, THEN conjunct2, THEN conjunct2, THEN conjunct2,
      THEN conjunct1, rule_format, of "[Fin (91 / 2)]" "[Fin 12]" 33 "\<lambda>lo la. (lo, la)"
      "ValueError ''cannot convert float NaN to integer''"]
    missing_time_row_steps
  have 3: "load_and_prepare_data (\<lambda>x. x) (\<lambda>code. Some (\<lambda>lo la. (lo, la))) [missing_time_row] =
      Inl (ValueError ''cannot convert float NaN to integer'')"
    by (simp del: map_result.simps)
  from m f 1 g 2 3 show ?thesis
    by simp
qed

text \<open>C6 as stated fails: a missing latitude in the first row and one in the second row give
  the same exception, whose message names neither a row nor a field.\<close>

theorem row_failure_without_index_counterexample:
  "load_and_prepare_data (\<lambda>x. x) (\<lambda>code. None) [missing_latitude_row, example_row] =
     Inl (ValueError ''cannot convert float NaN to integer'')
   \<and> load_and_prepare_data (\<lambda>x. x) (\<lambda>code. None) [example_row, missing_latitude_row] =
     Inl (ValueError ''cannot convert float NaN to integer'')"
  by (simp add: load_and_prepare_data_def example_row_ok)

subsection \<open>What the consumers change\<close>

lemma coerce_numeric_row:
  assumes "\<not> is_text (CO2 r)" "\<not> is_text (Temperature r)" "\<not> is_text (Humidity r)"
  shows "r\<lparr>Temperature := Num (to_numeric parse (Temperature r)),
           Humidity := Num (to_numeric parse (Humidity r)),
           CO2 := Num (to_numeric parse (CO2 r))\<rparr> = (r::row)"
proof -
  from assms obtain a b c where "CO2 r = Num a" "Temperature r = Num b" "Humidity r = Num c"
    by (cases "CO2 r"; cases "Temperature r"; cases "Humidity r") auto
  then show ?thesis
    by (simp add: to_numeric_def)
qed

lemma coerce_table_numeric:
  assumes "\<forall>r\<in>set df. \<not> is_text (CO2 r) \<and> \<not> is_text (Temperature r) \<and> \<not> is_text (Humidity r)"
  shows "coerce_table parse df = df"
  unfolding coerce_table_def using assms
  by (intro map_idI) (simp add: coerce_numeric_row)

lemma coerce_table_fields:
  "map Time (coerce_table parse df) = map Time df"
  "map Latitude (coerce_table parse df) = map Latitude df"
  "map Longitude (coerce_table parse df) = map Longitude df"
  "map Latitude_DD (coerce_table parse df) = map Latitude_DD df"
  "map Longitude_DD (coerce_table parse df) = map Longitude_DD df"
  "map Easting_m (coerce_table parse df) = map Easting_m df"
  "map Northing_m (coerce_table parse df) = map Northing_m df"
  "map UTM_Zone (coerce_table parse df) = map UTM_Zone df"
  "map Time_HHMMSS (coerce_table parse df) = map Time_HHMMSS df"
  "map Relative_Seconds (coerce_table parse df) = map Relative_Seconds df"
  "map CO2 (coerce_table parse df) = map (\<lambda>r. Num (to_numeric parse (CO2 r))) df"
  "map Temperature (coerce_table parse df) = map (\<lambda>r. Num (to_numeric parse (Temperature r))) df"
  "map Humidity (coerce_table parse df) = map (\<lambda>r. Num (to_numeric parse (Humidity r))) df"
  by (simp_all add: coerce_table_def comp_def)

lemma kml_outputs:
  assumes "snd (generate_kml_trajectory cmap df) = Inr k"
  shows "map icon_color (points k) =
           map (\<lambda>r. get_kml_color cmap (series_min (map (\<lambda>r. cell_float (CO2 r)) df))
                      (series_max (map (\<lambda>r. cell_float (CO2 r)) df)) (cell_float (CO2 r))) df"
    and "map point_coords (points k) = map (\<lambda>r. (Longitude_DD r, Latitude_DD r, 0)) df"
    and "linestring_coords k = map (\<lambda>r. (Longitude_DD r, Latitude_DD r, 0)) df"
  using assms
  by (auto simp: generate_kml_trajectory_def Let_def comp_def split: if_splits)

lemma chart_outputs:
  assumes "snd (draw_plots parse cmap df) = Inr ch"
  shows "scatter_colors ch =
           map (\<lambda>r. cmap (Normalize
                      (fst (nonsingular (series_min (map (\<lambda>r. to_numeric parse (CO2 r)) df))
                              (series_max (map (\<lambda>r. to_numeric parse (CO2 r)) df)) (1 / 10)))
                      (snd (nonsingular (series_min (map (\<lambda>r. to_numeric parse (CO2 r)) df))
                              (series_max (map (\<lambda>r. to_numeric parse (CO2 r)) df)) (1 / 10)))
                      (to_numeric parse (CO2 r)))) df"
    and "scatter_xy ch = map (\<lambda>r. (Easting_m r, Northing_m r)) df"
  using assms
  by (auto simp: draw_plots_def Let_def comp_def split: list.splits)

text \<open>
  C7, as the code has it. The document writer returns the table unchanged. The chart
  replaces the CO2, temperature and humidity cells by their numeric coercion and changes
  no other field, so a table without text in these columns is unchanged. Each consumer
  takes the minimum and maximum from the CO2 column of the table it is given (the chart
  draws with these bounds as its colour bar has adjusted them), and both draw the
  coordinates stored in the table.
\<close>

theorem consumers_frame:
  "fst (generate_kml_trajectory cmap df) = df
   \<and> map Time (fst (draw_plots parse cmap df)) = map Time df
   \<and> map Latitude (fst (draw_plots parse cmap df)) = map Latitude df
   \<and> map Longitude (fst (draw_plots parse cmap df)) = map Longitude df
   \<and> map Latitude_DD (fst (draw_plots parse cmap df)) = map Latitude_DD df
   \<and> map Longitude_DD (fst (draw_plots parse cmap df)) = map Longitude_DD df
   \<and> map Easting_m (fst (draw_plots parse cmap df)) = map Easting_m df
   \<and> map Northing_m (fst (draw_plots parse cmap df)) = map Northing_m df
   \<and> map UTM_Zone (fst (draw_plots parse cmap df)) = map UTM_Zone df
   \<and> map Time_HHMMSS (fst (draw_plots parse cmap df)) = map Time_HHMMSS df
   \<and> map Relative_Seconds (fst (draw_plots parse cmap df)) = map Relative_Seconds df
   \<and> map CO2 (fst (draw_plots parse cmap df)) = map (\<lambda>r. Num (to_numeric parse (CO2 r))) df
   \<and> map Temperature (fst (draw_plots parse cmap df)) =
       map (\<lambda>r. Num (to_numeric parse (Temperature r))) df
   \<and> map Humidity (fst (draw_plots parse cmap df)) =
       map (\<lambda>r. Num (to_numeric parse (Humidity r))) df
   \<and> ((\<forall>r\<in>set df. \<not> is_text (CO2 r) \<and> \<not> is_text (Temperature r) \<and> \<not> is_text (Humidity r))
        \<longrightarrow> fst (draw_plots parse cmap df) = df)
   \<and> (snd (generate_kml_trajectory cmap df) = Inr k \<longrightarrow>
        map icon_color (points k) =
          map (\<lambda>r. get_kml_color cmap (series_min (map (\<lambda>r. cell_float (CO2 r)) df))
                     (series_max (map (\<lambda>r. cell_float (CO2 r)) df)) (cell_float (CO2 r))) df
      \<and> map point_coords (points k) = map (\<lambda>r. (Longitude_DD r, Latitude_DD r, 0)) df)
   \<and> (snd (draw_plots parse cmap df) = Inr ch \<longrightarrow>
        scatter_colors ch =
          map (\<lambda>r. cmap (Normalize
                     (fst (nonsingular (series_min (map (\<lambda>r. to_numeric parse (CO2 r)) df))
                             (series_max (map (\<lambda>r. to_numeric parse (CO2 r)) df)) (1 / 10)))
                     (snd (nonsingular (series_min (map (\<lambda>r. to_numeric parse (CO2 r)) df))
                             (series_max (map (\<lambda>r. to_numeric parse (CO2 r)) df)) (1 / 10)))
                     (to_numeric parse (CO2 r)))) df
      \<and> scatter_xy ch = map (\<lambda>r. (Easting_m r, Northing_m r)) df)"
proof -
  have "fst (generate_kml_trajectory cmap df) = df"
    by (simp add: generate_kml_trajectory_def Let_def)
  moreover have "(\<forall>r\<in>set df. \<not> is_text (CO2 r) \<and> \<not> is_text (Temperature r) \<and> \<not> is_text (Humidity r))
        \<longrightarrow> fst (draw_plots parse cmap df) = df"
    unfolding fst_draw_plots by (intro impI coerce_table_numeric)
  ultimately show ?thesis
    using kml_outputs [of cmap df k] chart_outputs [of parse cmap df ch]
    unfolding fst_draw_plots coerce_table_fields
    by simp
qed

theorem consumers_frame_witness:
  "\<not> list_ex (\<lambda>r. is_text (CO2 r) \<or> is_text (Temperature r) \<or> is_text (Humidity r))
       constant_co2_table
   \<and> fst (draw_plots (\<lambda>s. None) RdYlGn_r constant_co2_table) = constant_co2_table
   \<and> fst (generate_kml_trajectory RdYlGn_r constant_co2_table) = constant_co2_table
   \<and> (\<exists>k. snd (generate_kml_trajectory RdYlGn_r constant_co2_table) = Inr k
          \<and> map point_coords (points k) =
              [(Fin 12, Fin (91 / 2), 0), (Fin 12, Fin (91 / 2), 0), (Fin 12, Fin (91 / 2), 0)])
   \<and> (\<exists>ch. snd (draw_plots (\<lambda>s. None) RdYlGn_r constant_co2_table) = Inr ch
          \<and> scatter_xy ch =
              [(Fin 500000, Fin 5000000), (Fin 500000, Fin 5000000), (Fin 500000, Fin 5000000)])"
proof -
  have num: "\<forall>r\<in>set constant_co2_table.
       \<not> is_text (CO2 r) \<and> \<not> is_text (Temperature r) \<and> \<not> is_text (Humidity r)"
    by (simp add: constant_co2_table_def)
  have ne: "constant_co2_table \<noteq> []"
    by (simp add: constant_co2_table_def)
  have all: "\<forall>r\<in>set constant_co2_table. CO2 r = Num (Fin 100)"
    by (simp add: constant_co2_table_def)
  obtain k where k: "snd (generate_kml_trajectory RdYlGn_r constant_co2_table) = Inr k"
    using kml_constant [OF all, of RdYlGn_r] by auto
  obtain ch where ch: "snd (draw_plots (\<lambda>s. None) RdYlGn_r constant_co2_table) = Inr ch"
    using chart_constant [OF ne all] by blast
  have xy: "map (\<lambda>r. (Easting_m r, Northing_m r)) constant_co2_table =
      [(Fin 500000, Fin 5000000), (Fin 500000, Fin 5000000), (Fin 500000, Fin 5000000)]"
    and co: "map (\<lambda>r. (Longitude_DD r, Latitude_DD r, 0::int)) constant_co2_table =
      [(Fin 12, Fin (91 / 2), 0), (Fin 12, Fin (91 / 2), 0), (Fin 12, Fin (91 / 2), 0)]"
    by (simp_all add: constant_co2_table_def)
  have nt: "\<not> list_ex (\<lambda>r. is_text (CO2 r) \<or> is_text (Temperature r) \<or> is_text (Humidity r))
       constant_co2_table"
    by (simp add: constant_co2_table_def)
  from consumers_frame [of RdYlGn_r constant_co2_table "\<lambda>s. None" k ch] num nt k ch
  show ?thesis
    unfolding xy co by auto
qed

text \<open>C7 as stated fails: the chart turns a CO2 cell holding the text \<open>abc\<close> into NaN.\<close>

theorem chart_coerces_text_counterexample:
  "fst (draw_plots (\<lambda>s. None) RdYlGn_r text_co2_table) \<noteq> text_co2_table
   \<and> map CO2 text_co2_table = [Text ''abc'']
   \<and> map CO2 (fst (draw_plots (\<lambda>s. None) RdYlGn_r text_co2_table)) = [Num NaN]"
  by (simp add: fst_draw_plots coerce_table_def text_co2_table_def to_numeric_def)

end
